theory Spec2Isabelle
  imports Main
begin

chapter \<open>GCSecretManager: configuration resolution, requests and responses\<close>

text \<open>
  A model of \<open>src/GCSecretManager.js\<close>: the class \<open>GCSecretManager\<close> and the module-level
  functions around it, over an explicit store of configuration objects and a log of the
  requests handed to the transport. Exceptions are values: every operation that can throw
  returns \<open>Inl\<close> of the error or \<open>Inr\<close> of its result, together with the world it leaves.
\<close>

section \<open>JavaScript values used by GCSecretManager\<close>

text \<open>
  Configuration fields, the \<open>project\<close> and \<open>version\<close> arguments hold primitive values.
  \<open>JNum n\<close> stands for the integer-valued number \<open>n\<close>, which a double holds exactly for
  a magnitude up to \<open>2^53\<close>; fractions, NaN and the infinities are not represented.
\<close>

datatype jsval = JUndefined | JNull | JBool bool | JNum int | JStr string

text \<open>The errors that can reach the caller: \<open>Error msg\<close> is \<open>throw new Error(msg)\<close>,
  \<open>TypeError\<close> is a property read on \<open>undefined\<close> or \<open>null\<close>, \<open>SyntaxError\<close> is what
  \<open>JSON.parse\<close> raises, \<open>External msg\<close> is a failure raised inside a collaborator
  (transport, base64 codec).\<close>

datatype error = Error string | TypeError | SyntaxError | External string

text \<open>The test \<open>!x\<close> of the source: \<open>truthy x\<close> is \<open>!!x\<close>.\<close>

fun truthy :: "jsval \<Rightarrow> bool" where
  "truthy JUndefined = False"
| "truthy JNull = False"
| "truthy (JBool b) = b"
| "truthy (JNum n) = (n \<noteq> 0)"
| "truthy (JStr s) = (s \<noteq> [])"

text \<open>Decimal rendering of an integer: what a template literal prints for an integer
  number of magnitude up to \<open>2^53\<close>. Beyond that the source prints the decimal of the
  nearest double (and an exponent form from \<open>10^21\<close> on), which this rendering does not
  follow.\<close>

fun digit_chars :: "nat \<Rightarrow> string" where
  "digit_chars n =
     (if n < 10 then [''0123456789'' ! n]
      else digit_chars (n div 10) @ [''0123456789'' ! (n mod 10)])"

declare digit_chars.simps [simp del]

definition num_to_string :: "int \<Rightarrow> string" where
  "num_to_string i = (if i < 0 then CHR ''-'' # digit_chars (nat (- i)) else digit_chars (nat i))"

text \<open>\<open>`${x}`\<close>: the string conversion of a template literal.\<close>

fun to_string :: "jsval \<Rightarrow> string" where
  "to_string JUndefined = ''undefined''"
| "to_string JNull = ''null''"
| "to_string (JBool b) = (if b then ''true'' else ''false'')"
| "to_string (JNum n) = num_to_string n"
| "to_string (JStr s) = s"

text \<open>A configuration object: its own properties. Reading a property that the object
  does not have gives \<open>undefined\<close>.\<close>

type_synonym jsobj = "string \<rightharpoonup> jsval"

definition get_field :: "jsobj \<Rightarrow> string \<Rightarrow> jsval" where
  "get_field obj k = (case obj k of None \<Rightarrow> JUndefined | Some v \<Rightarrow> v)"

text \<open>Parsed JSON. The keys of a \<open>JsonObj\<close> are distinct.\<close>

datatype json = JsonNull | JsonBool bool | JsonNum int | JsonStr string
  | JsonArr "json list" | JsonObj "(string \<times> json) list"

text \<open>\<open>x[k]\<close> on a parsed value, \<open>None\<close> being \<open>undefined\<close>, for a key \<open>k\<close> that no
  built-in prototype defines (the source reads \<open>payload\<close> and \<open>data\<close> only).\<close>

fun get_prop :: "json option \<Rightarrow> string \<Rightarrow> error + json option" where
  "get_prop None k = Inl TypeError"
| "get_prop (Some JsonNull) k = Inl TypeError"
| "get_prop (Some (JsonObj kvs)) k = Inr (map_of kvs k)"
| "get_prop (Some (JsonBool b)) k = Inr None"
| "get_prop (Some (JsonNum n)) k = Inr None"
| "get_prop (Some (JsonStr s)) k = Inr None"
| "get_prop (Some (JsonArr xs)) k = Inr None"

section \<open>Requests, responses and the external collaborators\<close>

text \<open>The two arguments of \<open>UrlFetchApp.fetch(url, options)\<close>; an option that the source
  does not set is \<open>None\<close>.\<close>

record request =
  url :: string
  http_method :: "string option"
  muteHttpExceptions :: bool
  payload :: "string option"
  contentType :: "string option"
  headers :: "(string \<times> string) list"

record response =
  getResponseCode :: int
  getContentText :: string

type_synonym bytes = "char list"

text \<open>
  The collaborators \<open>UrlFetchApp\<close>, \<open>ScriptApp\<close>, \<open>Utilities\<close> and \<open>JSON\<close> are not part of
  the library: they are parameters. The transport and the token provider see the requests
  issued so far, so that their answers may change from call to call. The transport, the
  parser and the base64 decoder, which work on what the remote side sent, may raise; the
  token provider, the encoder, the blob reader and \<open>JSON.stringify\<close> return a string.
\<close>

record env =
  UrlFetchApp_fetch :: "request list \<Rightarrow> request \<Rightarrow> error + response"
  ScriptApp_getOAuthToken :: "request list \<Rightarrow> string"
  Utilities_base64Encode :: "string \<Rightarrow> string"
  Utilities_base64Decode :: "json option \<Rightarrow> error + bytes"
  getDataAsString :: "bytes \<Rightarrow> string"
  JSON_parse :: "string \<Rightarrow> error + json"
  JSON_stringify :: "json \<Rightarrow> string"

section \<open>The store\<close>

text \<open>
  Objects live in a store and are passed by reference. \<open>nxt\<close> is the first address never
  handed out; \<open>requests\<close> lists the invocations of \<open>UrlFetchApp.fetch\<close>, oldest first.
\<close>

type_synonym addr = nat

record world =
  objs :: "addr \<Rightarrow> jsobj"
  nxt :: addr
  requests :: "request list"

definition alloc :: "jsobj \<Rightarrow> world \<Rightarrow> addr \<times> world" where
  "alloc obj w = (nxt w, w\<lparr>objs := (objs w)(nxt w := obj), nxt := Suc (nxt w)\<rparr>)"

text \<open>\<open>const DEFAULT_CONFIG = { project: null, version: "latest" }\<close>: the module keeps a
  reference to one object, created when the script is loaded.\<close>

definition DEFAULT_CONFIG :: addr where
  "DEFAULT_CONFIG = 0"

definition DEFAULT_CONFIG_literal :: jsobj where
  "DEFAULT_CONFIG_literal = [''project'' \<mapsto> JNull, ''version'' \<mapsto> JStr ''latest'']"

definition loaded :: world where
  "loaded = \<lparr>objs = (\<lambda>a. Map.empty)(DEFAULT_CONFIG := DEFAULT_CONFIG_literal),
             nxt = Suc DEFAULT_CONFIG, requests = []\<rparr>"

text \<open>\<open>...config\<close> inside an object literal: the own properties of the object \<open>config\<close>
  refers to; an omitted argument takes the default \<open>{}\<close>, which is only spread.\<close>

definition spread :: "world \<Rightarrow> addr option \<Rightarrow> jsobj" where
  "spread w config = (case config of None \<Rightarrow> Map.empty | Some a \<Rightarrow> objs w a)"

section \<open>class GCSecretManager\<close>

text \<open>
  A handle holds a reference to its configuration object, the field \<open>config_\<close> of the
  source (\<open>this_config\<close> here); the method \<open>getConfig_\<close> is \<open>getConfig\<close>. The methods \<open>get\<close>
  and \<open>set\<close> are \<open>GCSecretManager_get\<close> and \<open>GCSecretManager_set\<close>; the module-level
  functions that share a name with a method carry the prefix \<open>module_\<close>.
\<close>

record handle =
  this_config :: addr

text \<open>\<open>constructor(config = DEFAULT_CONFIG)\<close>\<close>

definition GCSecretManager_new :: "addr option \<Rightarrow> handle" where
  "GCSecretManager_new config =
     \<lparr>this_config = (case config of None \<Rightarrow> DEFAULT_CONFIG | Some a \<Rightarrow> a)\<rparr>"

definition setProject :: "handle \<Rightarrow> jsval \<Rightarrow> world \<Rightarrow> handle \<times> world" where
  "setProject this project w =
     (this, w\<lparr>objs := (objs w)(this_config this := (objs w (this_config this))(''project'' \<mapsto> project))\<rparr>)"

definition setVersion :: "handle \<Rightarrow> jsval \<Rightarrow> world \<Rightarrow> handle \<times> world" where
  "setVersion this version w =
     (this, w\<lparr>objs := (objs w)(this_config this := (objs w (this_config this))(''version'' \<mapsto> version))\<rparr>)"

definition mergedConfig :: "handle \<Rightarrow> addr option \<Rightarrow> world \<Rightarrow> jsobj" where
  "mergedConfig this config w =
     (objs w DEFAULT_CONFIG ++ objs w (this_config this)) ++ spread w config"

definition getConfig :: "handle \<Rightarrow> addr option \<Rightarrow> world \<Rightarrow> error + jsobj" where
  "getConfig this config w =
     (let merged = mergedConfig this config w
      in if \<not> truthy (get_field merged ''project'')
         then Inl (Error ''Google Cloud Project is required'')
         else Inr merged)"

text \<open>The \<open>headers\<close> option shared by the three requests.\<close>

definition auth_headers :: "env \<Rightarrow> world \<Rightarrow> (string \<times> string) list" where
  "auth_headers E w =
     [(''Authorization'', ''Bearer '' @ ScriptApp_getOAuthToken E (requests w)),
      (''Accept'', ''application/json'')]"

text \<open>One call of \<open>UrlFetchApp.fetch\<close>: the invocation is recorded whether or not the
  transport answers.\<close>

definition fetch :: "env \<Rightarrow> request \<Rightarrow> world \<Rightarrow> (error + response) \<times> world" where
  "fetch E req w = (UrlFetchApp_fetch E (requests w) req, w\<lparr>requests := requests w @ [req]\<rparr>)"

definition getSecret_request :: "env \<Rightarrow> world \<Rightarrow> jsval \<Rightarrow> string \<Rightarrow> jsval \<Rightarrow> request" where
  "getSecret_request E w project key version =
     \<lparr>url = ''https://secretmanager.googleapis.com/v1/projects/'' @ to_string project
             @ ''/secrets/'' @ key @ ''/versions/'' @ to_string version @ '':access'',
      http_method = None,
      muteHttpExceptions = True,
      payload = None,
      contentType = None,
      headers = auth_headers E w\<rparr>"

text \<open>The part of \<open>getSecret\<close> after the status checks: parse the body, read
  \<open>["payload"]["data"]\<close>, decode.\<close>

definition decode_body :: "env \<Rightarrow> response \<Rightarrow> error + jsval" where
  "decode_body E r =
     (case JSON_parse E (getContentText r) of
        Inl e \<Rightarrow> Inl e
      | Inr j \<Rightarrow>
         (case get_prop (Some j) ''payload'' of
            Inl e \<Rightarrow> Inl e
          | Inr p \<Rightarrow>
             (case get_prop p ''data'' of
                Inl e \<Rightarrow> Inl e
              | Inr d \<Rightarrow>
                 (case Utilities_base64Decode E d of
                    Inl e \<Rightarrow> Inl e
                  | Inr decodedData \<Rightarrow> Inr (JStr (getDataAsString E decodedData))))))"

definition getSecret :: "env \<Rightarrow> jsval \<Rightarrow> string \<Rightarrow> jsval \<Rightarrow> world \<Rightarrow> (error + jsval) \<times> world" where
  "getSecret E project key version0 w =
     (let version = (if version0 = JUndefined then JStr ''latest'' else version0)
      in case fetch E (getSecret_request E w project key version) w of
           (Inl e, w') \<Rightarrow> (Inl e, w')
         | (Inr r, w') \<Rightarrow>
             if getResponseCode r = 403 then (Inl (Error ''Permission denied''), w')
             else if getResponseCode r = 404 then (Inr JUndefined, w')
             else (decode_body E r, w'))"

definition createSecret_request :: "env \<Rightarrow> world \<Rightarrow> jsval \<Rightarrow> string \<Rightarrow> request" where
  "createSecret_request E w project key =
     \<lparr>url = ''https://secretmanager.googleapis.com/v1/projects/'' @ to_string project
             @ ''/secrets?secretId='' @ key,
      http_method = Some ''POST'',
      muteHttpExceptions = True,
      payload = Some (JSON_stringify E
                  (JsonObj [(''replication'', JsonObj [(''automatic'', JsonObj [])])])),
      contentType = Some ''application/json'',
      headers = auth_headers E w\<rparr>"

definition createSecret :: "env \<Rightarrow> jsval \<Rightarrow> string \<Rightarrow> world \<Rightarrow> (error + response) \<times> world" where
  "createSecret E project key w = fetch E (createSecret_request E w project key) w"

definition createSecretVersion_request ::
  "env \<Rightarrow> world \<Rightarrow> jsval \<Rightarrow> string \<Rightarrow> string \<Rightarrow> request" where
  "createSecretVersion_request E w project key val =
     \<lparr>url = ''https://secretmanager.googleapis.com/v1/projects/'' @ to_string project
             @ ''/secrets/'' @ key @ '':addVersion'',
      http_method = Some ''POST'',
      muteHttpExceptions = True,
      payload = Some (JSON_stringify E
                  (JsonObj [(''payload'',
                     JsonObj [(''data'', JsonStr (Utilities_base64Encode E val))])])),
      contentType = Some ''application/json'',
      headers = auth_headers E w\<rparr>"

definition createSecretVersion ::
  "env \<Rightarrow> jsval \<Rightarrow> string \<Rightarrow> string \<Rightarrow> world \<Rightarrow> (error + response) \<times> world" where
  "createSecretVersion E project key val w =
     fetch E (createSecretVersion_request E w project key val) w"

definition GCSecretManager_get ::
  "env \<Rightarrow> handle \<Rightarrow> string \<Rightarrow> addr option \<Rightarrow> world \<Rightarrow> (error + jsval) \<times> world" where
  "GCSecretManager_get E this key config w =
     (case getConfig this config w of
        Inl e \<Rightarrow> (Inl e, w)
      | Inr merged \<Rightarrow>
          getSecret E (get_field merged ''project'') key (get_field merged ''version'') w)"

definition GCSecretManager_set ::
  "env \<Rightarrow> handle \<Rightarrow> string \<Rightarrow> string \<Rightarrow> addr option \<Rightarrow> world \<Rightarrow> (error + unit) \<times> world" where
  "GCSecretManager_set E this key val config w =
     (case getConfig this config w of
        Inl e \<Rightarrow> (Inl e, w)
      | Inr merged \<Rightarrow>
         (case createSecret E (get_field merged ''project'') key w of
            (Inl e, w1) \<Rightarrow> (Inl e, w1)
          | (Inr createSecretResponse, w1) \<Rightarrow>
              if getResponseCode createSecretResponse \<notin> {200, 409}
              then (Inl (Error
                     (''Unexpected response code from the Secret Manager when creating a new secret: ''
                      @ num_to_string (getResponseCode createSecretResponse))), w1)
              else
               (case createSecretVersion E (get_field merged ''project'') key val w1 of
                  (Inl e, w2) \<Rightarrow> (Inl e, w2)
                | (Inr createSecretVersionResponse, w2) \<Rightarrow>
                    if getResponseCode createSecretVersionResponse \<noteq> 200
                    then (Inl (Error
                           (''Unexpected response code from the Secret Manager when creating a secret version: ''
                            @ num_to_string (getResponseCode createSecretVersionResponse))), w2)
                    else (Inr (), w2))))"

section \<open>The module-level functions\<close>

text \<open>\<open>init(config = {})\<close> stores a reference to the new object
  \<open>{ ...DEFAULT_CONFIG, ...config }\<close> in a new handle.\<close>

definition init :: "addr option \<Rightarrow> world \<Rightarrow> handle \<times> world" where
  "init config w =
     (case alloc (objs w DEFAULT_CONFIG ++ spread w config) w of
        (a, w') \<Rightarrow> (GCSecretManager_new (Some a), w'))"

definition module_get :: "env \<Rightarrow> string \<Rightarrow> addr option \<Rightarrow> world \<Rightarrow> (error + jsval) \<times> world" where
  "module_get E key config w = (case init config w of (h, w') \<Rightarrow> GCSecretManager_get E h key None w')"

definition module_set ::
  "env \<Rightarrow> string \<Rightarrow> string \<Rightarrow> addr option \<Rightarrow> world \<Rightarrow> (error + unit) \<times> world" where
  "module_set E key val config w =
     (case init config w of (h, w') \<Rightarrow> GCSecretManager_set E h key val None w')"

definition module_getSecret ::
  "env \<Rightarrow> jsval \<Rightarrow> string \<Rightarrow> jsval \<Rightarrow> world \<Rightarrow> (error + jsval) \<times> world" where
  "module_getSecret E project key version0 w =
     (let version = (if version0 = JUndefined then JStr ''latest'' else version0)
      in case init None w of (h, w') \<Rightarrow> getSecret E project key version w')"

definition module_createSecret ::
  "env \<Rightarrow> jsval \<Rightarrow> string \<Rightarrow> world \<Rightarrow> (error + response) \<times> world" where
  "module_createSecret E project key w =
     (case init None w of (h, w') \<Rightarrow> createSecret E project key w')"

definition module_createSecretVersion ::
  "env \<Rightarrow> jsval \<Rightarrow> string \<Rightarrow> string \<Rightarrow> world \<Rightarrow> (error + response) \<times> world" where
  "module_createSecretVersion E project key val w =
     (case init None w of (h, w') \<Rightarrow> createSecretVersion E project key val w')"

definition module_setProject :: "jsval \<Rightarrow> world \<Rightarrow> handle \<times> world" where
  "module_setProject project w = (case init None w of (h, w') \<Rightarrow> setProject h project w')"

definition module_setVersion :: "jsval \<Rightarrow> world \<Rightarrow> handle \<times> world" where
  "module_setVersion version w = (case init None w of (h, w') \<Rightarrow> setVersion h version w')"


section \<open>Chained setter calls\<close>

text \<open>A call of one of the two setters, and a chain \<open>h.s1(..).s2(..)...\<close> of such calls:
  each setter returns \<open>this\<close>, on which the next one is called.\<close>

datatype setter_call = SetProject jsval | SetVersion jsval

fun call_setter :: "handle \<Rightarrow> setter_call \<Rightarrow> world \<Rightarrow> handle \<times> world" where
  "call_setter h (SetProject project) w = setProject h project w"
| "call_setter h (SetVersion version) w = setVersion h version w"

fun chain_setters :: "handle \<Rightarrow> setter_call list \<Rightarrow> world \<Rightarrow> handle \<times> world" where
  "chain_setters h [] w = (h, w)"
| "chain_setters h (c # cs) w = (case call_setter h c w of (h', w') \<Rightarrow> chain_setters h' cs w')"

section \<open>A test double for the collaborators\<close>

text \<open>
  The environment of the repository's tests: the transport answers the \<open>n\<close>-th request with
  the \<open>n\<close>-th prepared response, the token is \<open>mock-oauth-token\<close>, the base64 codec
  and the blob reader return their argument. The parser knows the bodies used below.
\<close>

definition mock_parse :: "string \<Rightarrow> error + json" where
  \<open>mock_parse s =
     (if s = ''{"payload":{"data":"mock-secret"}}''
      then Inr (JsonObj [(''payload'', JsonObj [(''data'', JsonStr ''mock-secret'')])])
      else if s = ''{"name":"projects/1/secrets/secret-key/versions/1","payload":{"data":"mock-secret","dataCrc32c":"1"}}''
      then Inr (JsonObj
             [(''name'', JsonStr ''projects/1/secrets/secret-key/versions/1''),
              (''payload'', JsonObj [(''data'', JsonStr ''mock-secret''),
                                     (''dataCrc32c'', JsonStr ''1'')])])
      else if s = ''{"error":{"code":500}}''
      then Inr (JsonObj [(''error'', JsonObj [(''code'', JsonNum 500)])])
      else Inl SyntaxError)\<close>

definition mock_stringify :: "json \<Rightarrow> string" where
  \<open>mock_stringify j =
     (case j of
        JsonObj [(k, JsonObj [(k', JsonStr s)])] \<Rightarrow>
          ''{"'' @ k @ ''":{"'' @ k' @ ''":"'' @ s @ ''"}}''
      | _ \<Rightarrow> ''{"replication":{"automatic":{}}}'')\<close>

definition mock_env :: "response list \<Rightarrow> env" where
  "mock_env rs =
     \<lparr>UrlFetchApp_fetch = (\<lambda>hist req.
          if length hist < length rs then Inr (rs ! length hist)
          else Inl (External ''no response'')),
      ScriptApp_getOAuthToken = (\<lambda>hist. ''mock-oauth-token''),
      Utilities_base64Encode = (\<lambda>v. v),
      Utilities_base64Decode = (\<lambda>d. case d of Some (JsonStr s) \<Rightarrow> Inr s
                                      | _ \<Rightarrow> Inl (External ''Could not decode string'')),
      getDataAsString = (\<lambda>b. b),
      JSON_parse = mock_parse,
      JSON_stringify = mock_stringify\<rparr>"

text \<open>
  A small world for instantiating the theorems. The caller's object
  \<open>{ project: "my-project" }\<close> is at address 1; \<open>init\<close> of it gives \<open>demo_handle\<close>, whose
  stored configuration is at address 2; the caller's objects \<open>{ version: "1" }\<close> and
  \<open>{ project: null }\<close> are at addresses 3 and 4.
\<close>

definition demo_world :: world where
  "demo_world =
     snd (alloc [''project'' \<mapsto> JNull]
       (snd (alloc [''version'' \<mapsto> JStr ''1'']
         (snd (init (Some 1)
           (snd (alloc [''project'' \<mapsto> JStr ''my-project''] loaded)))))))"

definition demo_handle :: handle where
  "demo_handle = fst (init (Some 1) (snd (alloc [''project'' \<mapsto> JStr ''my-project''] loaded)))"

definition response_of :: "int \<Rightarrow> string \<Rightarrow> response" where
  "response_of c body = \<lparr>getResponseCode = c, getContentText = body\<rparr>"

section \<open>Configuration resolution\<close>

lemma map_add_same: "m ++ m = m"
  by (rule ext) (simp add: map_add_def split: option.split)

lemma map_add_left_same: "a ++ a ++ b = a ++ b"
  by (rule ext) (simp add: map_add_def split: option.split)

lemma map_add_twice: "a ++ b ++ a ++ b = a ++ b"
  by (rule ext) (simp add: map_add_def split: option.split)

lemma mergedConfig_init:
  "init config w = (h, w') \<Longrightarrow> mergedConfig h None w' = objs w DEFAULT_CONFIG ++ spread w config"
  by (auto simp: init_def alloc_def mergedConfig_def spread_def GCSecretManager_new_def
      map_add_same map_add_left_same map_add_twice)

lemma requests_init: "init config w = (h, w') \<Longrightarrow> requests w' = requests w"
  by (auto simp: init_def alloc_def)

text \<open>
  C1. When the effective \<open>project\<close> is falsy (missing, that is \<open>undefined\<close>; \<open>null\<close>; the
  empty string), \<open>get\<close> and \<open>set\<close> fail with the error "Google Cloud Project is
  required" and no request has been issued: on a handle the world is returned as it was,
  and the module-level functions, which first build a handle, leave the list of requests
  as it was.
\<close>

theorem C1_missing_project:
  "(\<not> truthy (get_field (mergedConfig this config w) ''project'') \<longrightarrow>
      GCSecretManager_get E this key config w = (Inl (Error ''Google Cloud Project is required''), w)
    \<and> GCSecretManager_set E this key val config w = (Inl (Error ''Google Cloud Project is required''), w))
   \<and> (\<not> truthy (get_field (objs w DEFAULT_CONFIG ++ spread w config) ''project'') \<longrightarrow>
      fst (module_get E key config w) = Inl (Error ''Google Cloud Project is required'')
    \<and> requests (snd (module_get E key config w)) = requests w
    \<and> fst (module_set E key val config w) = Inl (Error ''Google Cloud Project is required'')
    \<and> requests (snd (module_set E key val config w)) = requests w)"
proof (intro conjI impI)
  assume "\<not> truthy (get_field (mergedConfig this config w) ''project'')"
  then show "GCSecretManager_get E this key config w = (Inl (Error ''Google Cloud Project is required''), w)"
    by (simp add: GCSecretManager_get_def getConfig_def)
next
  assume "\<not> truthy (get_field (mergedConfig this config w) ''project'')"
  then show "GCSecretManager_set E this key val config w = (Inl (Error ''Google Cloud Project is required''), w)"
    by (simp add: GCSecretManager_set_def getConfig_def)
next
  assume a: "\<not> truthy (get_field (objs w DEFAULT_CONFIG ++ spread w config) ''project'')"
  obtain h w' where i: "init config w = (h, w')" by (cases "init config w")
  from a mergedConfig_init[OF i]
  have f: "getConfig h None w' = Inl (Error ''Google Cloud Project is required'')"
    by (simp add: getConfig_def)
  show "fst (module_get E key config w) = Inl (Error ''Google Cloud Project is required'')"
    by (simp add: module_get_def i GCSecretManager_get_def f)
  show "requests (snd (module_get E key config w)) = requests w"
    by (simp add: module_get_def i GCSecretManager_get_def f requests_init[OF i])
  show "fst (module_set E key val config w) = Inl (Error ''Google Cloud Project is required'')"
    by (simp add: module_set_def i GCSecretManager_set_def f)
  show "requests (snd (module_set E key val config w)) = requests w"
    by (simp add: module_set_def i GCSecretManager_set_def f requests_init[OF i])
qed

theorem C1_missing_project_witness:
  "\<not> truthy (get_field (mergedConfig (fst (init None loaded)) None (snd (init None loaded))) ''project'')
   \<and> GCSecretManager_get (mock_env []) (fst (init None loaded)) ''does-not-exist'' None (snd (init None loaded))
       = (Inl (Error ''Google Cloud Project is required''), snd (init None loaded))
   \<and> \<not> truthy (get_field (objs loaded DEFAULT_CONFIG ++ spread loaded None) ''project'')
   \<and> fst (module_set (mock_env []) ''new-secret'' ''new-secret-value'' None loaded)
       = Inl (Error ''Google Cloud Project is required'')
   \<and> requests (snd (module_set (mock_env []) ''new-secret'' ''new-secret-value'' None loaded)) = []"
proof -
  have a: "\<not> truthy (get_field (mergedConfig (fst (init None loaded)) None (snd (init None loaded))) ''project'')"
    by (simp add: init_def alloc_def loaded_def GCSecretManager_new_def DEFAULT_CONFIG_def
        DEFAULT_CONFIG_literal_def mergedConfig_def spread_def get_field_def)
  have b: "\<not> truthy (get_field (objs loaded DEFAULT_CONFIG ++ spread loaded None) ''project'')"
    by (simp add: loaded_def DEFAULT_CONFIG_def DEFAULT_CONFIG_literal_def spread_def get_field_def)
  have c: "requests loaded = []"
    by (simp add: loaded_def)
  show ?thesis
    using a b c
      C1_missing_project [of "fst (init None loaded)" None "snd (init None loaded)" "mock_env []"
        "''does-not-exist''" "''new-secret-value''"]
      C1_missing_project [of "fst (init None loaded)" None loaded "mock_env []"
        "''new-secret''" "''new-secret-value''"]
    by simp
qed


lemma mergedConfig_field:
  "mergedConfig this config w k =
     (case spread w config k of
        Some v \<Rightarrow> Some v
      | None \<Rightarrow> (case objs w (this_config this) k of
                   Some v \<Rightarrow> Some v
                 | None \<Rightarrow> objs w DEFAULT_CONFIG k))"
  by (simp add: mergedConfig_def map_add_def split: option.split)

lemma getSecret_request_requests:
  "requests w' = requests w \<Longrightarrow> getSecret_request E w' = getSecret_request E w"
  by (intro ext) (simp add: getSecret_request_def auth_headers_def)

lemma getSecret_requests:
  "requests (snd (getSecret E project key version w)) =
     requests w @ [getSecret_request E w project key
                     (if version = JUndefined then JStr ''latest'' else version)]"
  by (simp add: getSecret_def fetch_def Let_def split: sum.split)

lemma GCSecretManager_get_requests:
  "getConfig this config w = Inr m \<Longrightarrow>
   requests (snd (GCSecretManager_get E this key config w)) =
     requests w @ [getSecret_request E w (get_field m ''project'') key
                     (if get_field m ''version'' = JUndefined then JStr ''latest''
                      else get_field m ''version'')]"
  by (simp add: GCSecretManager_get_def getSecret_requests)

lemma getConfig_Inr:
  "getConfig this config w = Inr m \<longleftrightarrow>
     m = mergedConfig this config w \<and> truthy (get_field m ''project'')"
  by (auto simp: getConfig_def Let_def)

lemma chain_config:
  assumes "module_setProject p w = (h1, w1)" and "setVersion h1 v w1 = (h2, w2)"
  shows "get_field (mergedConfig h2 None w2) ''project'' = p"
    and "get_field (mergedConfig h2 None w2) ''version'' = v"
    and "requests w2 = requests w"
  using assms
  by (auto simp: module_setProject_def init_def alloc_def setProject_def setVersion_def
      GCSecretManager_new_def mergedConfig_def spread_def get_field_def map_add_def
      split: prod.splits)

text \<open>
  C2. Configuration resolution overlays the three layers field by field: the call-level
  object wins over the handle's stored configuration, which wins over \<open>DEFAULT_CONFIG\<close>;
  \<open>getConfig_\<close> returns that overlay. For \<open>version\<close>: a call-level version is the effective
  one; without it the version stored in the handle is; and a handle built by \<open>init\<close> from a
  configuration without \<open>version\<close> resolves to the default \<open>latest\<close>. The request of \<open>get\<close>
  is built from the resolved \<open>project\<close> and \<open>version\<close>, and after
  \<open>setProject(p).setVersion(v)\<close> (with \<open>p\<close> truthy, as any request needs, and \<open>v\<close> a string
  or a number) \<open>get(key)\<close> issues one request, whose URL is
  \<open>.../projects/p/secrets/key/versions/v:access\<close>.
\<close>

theorem C2_precedence:
  "mergedConfig this config w k =
     (case spread w config k of
        Some v \<Rightarrow> Some v
      | None \<Rightarrow> (case objs w (this_config this) k of
                   Some v \<Rightarrow> Some v
                 | None \<Rightarrow> objs w DEFAULT_CONFIG k))
   \<and> (getConfig this config w = Inr m \<longrightarrow> m = mergedConfig this config w)
   \<and> (spread w config ''version'' = Some v \<longrightarrow>
        get_field (mergedConfig this config w) ''version'' = v)
   \<and> (spread w config ''version'' = None \<and> objs w (this_config this) ''version'' = Some v \<longrightarrow>
        get_field (mergedConfig this config w) ''version'' = v)
   \<and> (init config0 w0 = (this, w) \<and> objs w0 DEFAULT_CONFIG = DEFAULT_CONFIG_literal
        \<and> spread w0 config0 ''version'' = None \<and> spread w config ''version'' = None \<longrightarrow>
        get_field (mergedConfig this config w) ''version'' = JStr ''latest'')
   \<and> (getConfig this config w = Inr m \<longrightarrow>
        requests (snd (GCSecretManager_get E this key config w)) =
          requests w @ [getSecret_request E w (get_field m ''project'') key
                          (if get_field m ''version'' = JUndefined then JStr ''latest''
                           else get_field m ''version'')])
   \<and> (truthy p \<and> v \<noteq> JUndefined \<and> module_setProject p w = (h1, w1)
        \<and> setVersion h1 v w1 = (h2, w2) \<longrightarrow>
        h2 = h1
        \<and> map url (requests (snd (GCSecretManager_get E h2 key None w2))) =
            map url (requests w) @
              [''https://secretmanager.googleapis.com/v1/projects/'' @ to_string p
               @ ''/secrets/'' @ key @ ''/versions/'' @ to_string v @ '':access''])"
proof (intro conjI impI)
  show "mergedConfig this config w k =
     (case spread w config k of
        Some v \<Rightarrow> Some v
      | None \<Rightarrow> (case objs w (this_config this) k of
                   Some v \<Rightarrow> Some v
                 | None \<Rightarrow> objs w DEFAULT_CONFIG k))"
    by (rule mergedConfig_field)
next
  assume "getConfig this config w = Inr m"
  then show "m = mergedConfig this config w"
    by (simp add: getConfig_Inr)
next
  assume "spread w config ''version'' = Some v"
  then show "get_field (mergedConfig this config w) ''version'' = v"
    by (simp add: get_field_def mergedConfig_field)
next
  assume "spread w config ''version'' = None \<and> objs w (this_config this) ''version'' = Some v"
  then show "get_field (mergedConfig this config w) ''version'' = v"
    by (simp add: get_field_def mergedConfig_field)
next
  assume a: "init config0 w0 = (this, w) \<and> objs w0 DEFAULT_CONFIG = DEFAULT_CONFIG_literal
        \<and> spread w0 config0 ''version'' = None \<and> spread w config ''version'' = None"
  then have "objs w (this_config this) ''version'' = Some (JStr ''latest'')"
    by (auto simp: init_def alloc_def GCSecretManager_new_def map_add_def
        DEFAULT_CONFIG_literal_def)
  with a show "get_field (mergedConfig this config w) ''version'' = JStr ''latest''"
    by (simp add: get_field_def mergedConfig_field)
next
  assume "getConfig this config w = Inr m"
  then show "requests (snd (GCSecretManager_get E this key config w)) =
          requests w @ [getSecret_request E w (get_field m ''project'') key
                          (if get_field m ''version'' = JUndefined then JStr ''latest''
                           else get_field m ''version'')]"
    by (rule GCSecretManager_get_requests)
next
  assume a: "truthy p \<and> v \<noteq> JUndefined \<and> module_setProject p w = (h1, w1)
        \<and> setVersion h1 v w1 = (h2, w2)"
  then show "h2 = h1"
    by (simp add: setVersion_def)
next
  assume a: "truthy p \<and> v \<noteq> JUndefined \<and> module_setProject p w = (h1, w1)
        \<and> setVersion h1 v w1 = (h2, w2)"
  then have sp: "module_setProject p w = (h1, w1)" and sv: "setVersion h1 v w1 = (h2, w2)"
    and p: "truthy p" and v: "v \<noteq> JUndefined"
    by simp_all
  have g: "getConfig h2 None w2 = Inr (mergedConfig h2 None w2)"
    using p chain_config(1)[OF sp sv] by (simp add: getConfig_Inr)
  show "map url (requests (snd (GCSecretManager_get E h2 key None w2))) =
            map url (requests w) @
              [''https://secretmanager.googleapis.com/v1/projects/'' @ to_string p
               @ ''/secrets/'' @ key @ ''/versions/'' @ to_string v @ '':access'']"
    using v
    by (simp add: GCSecretManager_get_requests[OF g] chain_config[OF sp sv]
        getSecret_request_def)
qed

lemma demo_handle_eq: "demo_handle = \<lparr>this_config = 2\<rparr>"
  by (simp add: demo_handle_def init_def alloc_def loaded_def GCSecretManager_new_def
      DEFAULT_CONFIG_def)

lemma demo_world_eq:
  "demo_world =
     \<lparr>objs = (\<lambda>a. Map.empty)
        (0 := DEFAULT_CONFIG_literal,
         1 := [''project'' \<mapsto> JStr ''my-project''],
         2 := DEFAULT_CONFIG_literal ++ [''project'' \<mapsto> JStr ''my-project''],
         3 := [''version'' \<mapsto> JStr ''1''],
         4 := [''project'' \<mapsto> JNull]),
      nxt = 5, requests = []\<rparr>"
  by (simp add: demo_world_def init_def alloc_def loaded_def GCSecretManager_new_def
      DEFAULT_CONFIG_def spread_def numeral_eq_Suc)


lemmas demo_defs = init_def alloc_def loaded_def GCSecretManager_new_def DEFAULT_CONFIG_def
  DEFAULT_CONFIG_literal_def spread_def mergedConfig_def get_field_def getConfig_def
  setProject_def setVersion_def module_setProject_def module_setVersion_def

theorem C2_precedence_witness:
  "getConfig demo_handle (Some 3) demo_world = Inr (mergedConfig demo_handle (Some 3) demo_world)
   \<and> spread demo_world (Some 3) ''version'' = Some (JStr ''1'')
   \<and> get_field (mergedConfig demo_handle (Some 3) demo_world) ''version'' = JStr ''1''
   \<and> objs (snd (setVersion demo_handle (JNum 3) demo_world)) (this_config demo_handle) ''version''
        = Some (JNum 3)
   \<and> get_field (mergedConfig demo_handle None (snd (setVersion demo_handle (JNum 3) demo_world)))
        ''version'' = JNum 3
   \<and> init None loaded = (\<lparr>this_config = 1\<rparr>, snd (init None loaded))
   \<and> get_field (mergedConfig \<lparr>this_config = 1\<rparr> None (snd (init None loaded))) ''version''
        = JStr ''latest''
   \<and> map url (requests (snd (GCSecretManager_get (mock_env [response_of 404 []])
              demo_handle ''does-not-exist'' (Some 3) demo_world)))
        = [''https://secretmanager.googleapis.com/v1/projects/my-project/secrets/does-not-exist/versions/1:access'']
   \<and> module_setProject (JStr ''my-project'') loaded
        = (\<lparr>this_config = 1\<rparr>, snd (module_setProject (JStr ''my-project'') loaded))
   \<and> map url (requests (snd (GCSecretManager_get (mock_env [response_of 404 []])
              \<lparr>this_config = 1\<rparr> ''does-not-exist'' None
              (snd (setVersion \<lparr>this_config = 1\<rparr> (JNum 5)
                     (snd (module_setProject (JStr ''my-project'') loaded)))))))
        = [''https://secretmanager.googleapis.com/v1/projects/my-project/secrets/does-not-exist/versions/5:access'']"
proof -
  let ?w3 = "snd (setVersion demo_handle (JNum 3) demo_world)"
  let ?w1 = "snd (module_setProject (JStr ''my-project'') loaded)"
  let ?h1 = "\<lparr>this_config = 1\<rparr>"
  let ?w2 = "snd (setVersion ?h1 (JNum 5) ?w1)"
  let ?E = "mock_env [response_of 404 []]"
  have g: "getConfig demo_handle (Some 3) demo_world = Inr (mergedConfig demo_handle (Some 3) demo_world)"
    by (simp add: demo_handle_eq demo_world_eq demo_defs)
  have c: "spread demo_world (Some 3) ''version'' = Some (JStr ''1'')"
    by (simp add: demo_world_eq spread_def)
  have i: "spread ?w3 None ''version'' = None
           \<and> objs ?w3 (this_config demo_handle) ''version'' = Some (JNum 3)"
    by (simp add: demo_handle_eq demo_world_eq demo_defs)
  have d: "init None loaded = (?h1, snd (init None loaded))
           \<and> objs loaded DEFAULT_CONFIG = DEFAULT_CONFIG_literal
           \<and> spread loaded None ''version'' = None
           \<and> spread (snd (init None loaded)) None ''version'' = None"
    by (simp add: demo_defs)
  have ch: "truthy (JStr ''my-project'') \<and> JNum 5 \<noteq> JUndefined
            \<and> module_setProject (JStr ''my-project'') loaded = (?h1, ?w1)
            \<and> setVersion ?h1 (JNum 5) ?w1 = (?h1, ?w2)"
    by (simp add: demo_defs)
  have r: "requests demo_world = [] \<and> requests loaded = []"
    by (simp add: demo_world_eq loaded_def)
  have u: "to_string (JNum 5) = ''5''"
    by (simp add: num_to_string_def digit_chars.simps)
  have m: "get_field (mergedConfig demo_handle (Some 3) demo_world) ''project'' = JStr ''my-project''"
    by (simp add: demo_handle_eq demo_world_eq demo_defs)
  note t1 = C2_precedence [where this = demo_handle and config = "Some 3" and w = demo_world
      and v = "JStr ''1''" and m = "mergedConfig demo_handle (Some 3) demo_world" and E = ?E
      and key = "''does-not-exist''"]
  note t2 = C2_precedence [where this = demo_handle and config = None and w = ?w3
      and v = "JNum 3"]
  note t3 = C2_precedence [where this = ?h1 and config = None and w = "snd (init None loaded)"
      and ?config0.0 = None and ?w0.0 = loaded]
  note t4 = C2_precedence [where p = "JStr ''my-project''" and v = "JNum 5" and w = loaded
      and ?h1.0 = ?h1 and ?w1.0 = ?w1 and ?h2.0 = ?h1 and ?w2.0 = ?w2 and E = ?E
      and key = "''does-not-exist''"]
  have k1: "get_field (mergedConfig demo_handle (Some 3) demo_world) ''version'' = JStr ''1''"
    using t1 c by blast
  have k2: "get_field (mergedConfig demo_handle None ?w3) ''version'' = JNum 3"
    using t2 i by blast
  have k3: "get_field (mergedConfig ?h1 None (snd (init None loaded))) ''version'' = JStr ''latest''"
    using t3 d by blast
  have k4: "map url (requests (snd (GCSecretManager_get ?E demo_handle ''does-not-exist'' (Some 3) demo_world)))
        = [''https://secretmanager.googleapis.com/v1/projects/my-project/secrets/does-not-exist/versions/1:access'']"
    using t1 g r k1 m by (simp add: getSecret_request_def)
  have k5: "map url (requests (snd (GCSecretManager_get ?E ?h1 ''does-not-exist'' None ?w2)))
        = [''https://secretmanager.googleapis.com/v1/projects/my-project/secrets/does-not-exist/versions/5:access'']"
    using t4 ch r u by simp
  show ?thesis
    using g c i d ch k1 k2 k3 k4 k5 by simp
qed


text \<open>
  C3 as stated fails: spreading copies every own property, whatever its value. With
  \<open>project: "my-project"\<close> stored in the handle, the call-level object \<open>{ project: null }\<close>
  resolves \<open>project\<close> to \<open>null\<close>, and \<open>get\<close> fails for want of a project.
\<close>

theorem C3_null_override_counterexample:
  "objs demo_world (this_config demo_handle) ''project'' = Some (JStr ''my-project'')
   \<and> objs demo_world 4 ''project'' = Some JNull
   \<and> get_field (mergedConfig demo_handle (Some 4) demo_world) ''project'' = JNull
   \<and> GCSecretManager_get (mock_env [response_of 404 []]) demo_handle ''secret-key'' (Some 4)
        demo_world
       = (Inl (Error ''Google Cloud Project is required''), demo_world)"
  by (simp add: demo_handle_eq demo_world_eq demo_defs GCSecretManager_get_def)

text \<open>
  C3, amended. A field that a higher-precedence layer does not have keeps the value of the
  lower layers; a field that a higher-precedence layer has replaces the lower value,
  whatever the new value is (\<open>null\<close> and \<open>undefined\<close> included): per field, the right-most
  layer that has the field wins.
\<close>

theorem C3_present_field_wins:
  "(spread w config k = None \<longrightarrow>
      mergedConfig this config w k = mergedConfig this None w k)
   \<and> (objs w (this_config this) k = None \<longrightarrow>
      mergedConfig this None w k = objs w DEFAULT_CONFIG k)
   \<and> (spread w config k = Some v \<longrightarrow> get_field (mergedConfig this config w) k = v)
   \<and> (objs w (this_config this) k = Some v \<longrightarrow> get_field (mergedConfig this None w) k = v)"
  by (simp add: mergedConfig_field get_field_def spread_def)

theorem C3_present_field_wins_witness:
  "spread demo_world (Some 3) ''project'' = None
   \<and> mergedConfig demo_handle (Some 3) demo_world ''project'' = Some (JStr ''my-project'')
   \<and> objs demo_world (this_config demo_handle) ''missing'' = None
   \<and> mergedConfig demo_handle None demo_world ''missing'' = None
   \<and> spread demo_world (Some 4) ''project'' = Some JNull
   \<and> get_field (mergedConfig demo_handle (Some 4) demo_world) ''project'' = JNull
   \<and> objs demo_world (this_config demo_handle) ''project'' = Some (JStr ''my-project'')
   \<and> get_field (mergedConfig demo_handle None demo_world) ''project'' = JStr ''my-project''"
proof -
  have a: "spread demo_world (Some 3) ''project'' = None"
    by (simp add: demo_world_eq spread_def)
  have b: "objs demo_world (this_config demo_handle) ''missing'' = None"
    by (simp add: demo_handle_eq demo_world_eq DEFAULT_CONFIG_literal_def)
  have c: "spread demo_world (Some 4) ''project'' = Some JNull"
    by (simp add: demo_world_eq spread_def)
  have d: "objs demo_world (this_config demo_handle) ''project'' = Some (JStr ''my-project'')"
    by (simp add: demo_handle_eq demo_world_eq DEFAULT_CONFIG_literal_def)
  have e: "objs demo_world DEFAULT_CONFIG ''missing'' = None"
    by (simp add: demo_world_eq DEFAULT_CONFIG_def DEFAULT_CONFIG_literal_def)
  have f: "mergedConfig demo_handle None demo_world ''project'' = Some (JStr ''my-project'')"
    by (simp add: demo_handle_eq demo_world_eq demo_defs)
  show ?thesis
    using a b c d e f
      C3_present_field_wins [of demo_world "Some 3" "''project''" demo_handle "JStr ''my-project''"]
      C3_present_field_wins [of demo_world "Some 4" "''project''" demo_handle JNull]
      C3_present_field_wins [of demo_world None "''missing''" demo_handle JNull]
    by simp
qed


section \<open>Reading a secret\<close>

lemma getSecret_result:
  assumes "UrlFetchApp_fetch E (requests w)
             (getSecret_request E w project key
                (if version = JUndefined then JStr ''latest'' else version)) = Inr r"
  shows "fst (getSecret E project key version w) =
           (if getResponseCode r = 403 then Inl (Error ''Permission denied'')
            else if getResponseCode r = 404 then Inr JUndefined
            else decode_body E r)"
  using assms by (simp add: getSecret_def fetch_def Let_def)

lemma getSecret_same_requests:
  assumes "requests w' = requests w"
  shows "fst (getSecret E project key version w') = fst (getSecret E project key version w)"
  by (simp add: getSecret_def fetch_def Let_def getSecret_request_requests[OF assms] assms
      split: sum.split)

lemma module_getSecret_result:
  "fst (module_getSecret E project key version w) = fst (getSecret E project key version w)"
proof -
  obtain h w' where i: "init None w = (h, w')" by (cases "init None w")
  have "fst (getSecret E project key (if version = JUndefined then JStr ''latest'' else version) w')
        = fst (getSecret E project key version w')"
    by (simp add: getSecret_def)
  then show ?thesis
    by (simp add: module_getSecret_def i getSecret_same_requests[OF requests_init[OF i]])
qed

lemma GCSecretManager_get_result:
  "getConfig this config w = Inr m \<Longrightarrow>
   fst (GCSecretManager_get E this key config w) =
     fst (getSecret E (get_field m ''project'') key (get_field m ''version'') w)"
  by (simp add: GCSecretManager_get_def)

lemma module_get_result:
  assumes "truthy (get_field (objs w DEFAULT_CONFIG ++ spread w config) ''project'')"
  shows "fst (module_get E key config w) =
     fst (getSecret E (get_field (objs w DEFAULT_CONFIG ++ spread w config) ''project'') key
            (get_field (objs w DEFAULT_CONFIG ++ spread w config) ''version'') w)"
proof -
  obtain h w' where i: "init config w = (h, w')" by (cases "init config w")
  have g: "getConfig h None w' = Inr (objs w DEFAULT_CONFIG ++ spread w config)"
    using assms mergedConfig_init[OF i] by (simp add: getConfig_Inr)
  show ?thesis
    by (simp add: module_get_def i GCSecretManager_get_result[OF g]
        getSecret_same_requests[OF requests_init[OF i]])
qed

text \<open>
  C4. The source has no branch for a status other than 403 and 404: \<open>getSecret\<close> goes on
  to parse the body. On a 500 response with the API's error body the read raises a
  \<open>TypeError\<close> (\<open>["payload"]\<close> is \<open>undefined\<close>), on a 500 response with an empty body a
  \<open>SyntaxError\<close>, and on a 500 response whose body has \<open>payload.data\<close> it returns the
  decoded text; in no case an error that reports the status.
\<close>

theorem C4_unexpected_status_falls_through:
  \<open>fst (getSecret (mock_env [response_of 500 ''{"error":{"code":500}}''])
          (JStr ''my-project'') ''secret-key'' JUndefined loaded) = Inl TypeError
   \<and> fst (getSecret (mock_env [response_of 500 ''''])
          (JStr ''my-project'') ''secret-key'' JUndefined loaded) = Inl SyntaxError
   \<and> fst (getSecret (mock_env [response_of 500 ''{"payload":{"data":"mock-secret"}}''])
          (JStr ''my-project'') ''secret-key'' JUndefined loaded) = Inr (JStr ''mock-secret'')
   \<and> fst (GCSecretManager_get (mock_env [response_of 500 ''{"error":{"code":500}}''])
          demo_handle ''secret-key'' None demo_world) = Inl TypeError\<close>
  by (simp add: getSecret_def fetch_def mock_env_def response_of_def decode_body_def
      mock_parse_def GCSecretManager_get_def demo_handle_eq demo_world_eq demo_defs)


text \<open>
  C5. When the transport answers the fetch-secret request with status 403, \<open>getSecret\<close> and
  \<open>get\<close> (as methods of a handle and as module-level functions) fail with the error
  "Permission denied"; when it answers with status 404 they return \<open>undefined\<close> and raise
  nothing. For \<open>get\<close> the request is the one built from the resolved configuration.
\<close>

theorem C5_read_403_404:
  assumes "UrlFetchApp_fetch E (requests w)
             (getSecret_request E w project key
                (if version = JUndefined then JStr ''latest'' else version)) = Inr r"
  shows "(getResponseCode r = 403 \<longrightarrow>
            fst (getSecret E project key version w) = Inl (Error ''Permission denied'')
          \<and> fst (module_getSecret E project key version w) = Inl (Error ''Permission denied'')
          \<and> (getConfig this config w = Inr m \<and> get_field m ''project'' = project
               \<and> get_field m ''version'' = version \<longrightarrow>
              fst (GCSecretManager_get E this key config w) = Inl (Error ''Permission denied''))
          \<and> (truthy project
               \<and> get_field (objs w DEFAULT_CONFIG ++ spread w config) ''project'' = project
               \<and> get_field (objs w DEFAULT_CONFIG ++ spread w config) ''version'' = version \<longrightarrow>
              fst (module_get E key config w) = Inl (Error ''Permission denied'')))
       \<and> (getResponseCode r = 404 \<longrightarrow>
            fst (getSecret E project key version w) = Inr JUndefined
          \<and> fst (module_getSecret E project key version w) = Inr JUndefined
          \<and> (getConfig this config w = Inr m \<and> get_field m ''project'' = project
               \<and> get_field m ''version'' = version \<longrightarrow>
              fst (GCSecretManager_get E this key config w) = Inr JUndefined)
          \<and> (truthy project
               \<and> get_field (objs w DEFAULT_CONFIG ++ spread w config) ''project'' = project
               \<and> get_field (objs w DEFAULT_CONFIG ++ spread w config) ''version'' = version \<longrightarrow>
              fst (module_get E key config w) = Inr JUndefined))"
proof -
  note res = getSecret_result[OF assms]
  have handle_get: "fst (GCSecretManager_get E this key config w) = fst (getSecret E project key version w)"
    if "getConfig this config w = Inr m \<and> get_field m ''project'' = project
               \<and> get_field m ''version'' = version"
    using that GCSecretManager_get_result[of this config w m E key] by simp
  have mod_get: "fst (module_get E key config w) = fst (getSecret E project key version w)"
    if "truthy project
               \<and> get_field (objs w DEFAULT_CONFIG ++ spread w config) ''project'' = project
               \<and> get_field (objs w DEFAULT_CONFIG ++ spread w config) ''version'' = version"
    using that module_get_result[of w config E key] by simp
  show ?thesis
    by (simp add: res module_getSecret_result handle_get mod_get)
qed


theorem C5_read_403_404_witness:
  "UrlFetchApp_fetch (mock_env [response_of 403 []]) (requests demo_world)
     (getSecret_request (mock_env [response_of 403 []]) demo_world (JStr ''my-project'')
        ''secret-key'' (JStr ''latest'')) = Inr (response_of 403 [])
   \<and> getResponseCode (response_of 403 []) = 403
   \<and> getConfig demo_handle None demo_world = Inr (mergedConfig demo_handle None demo_world)
   \<and> get_field (mergedConfig demo_handle None demo_world) ''project'' = JStr ''my-project''
   \<and> get_field (mergedConfig demo_handle None demo_world) ''version'' = JStr ''latest''
   \<and> get_field (objs demo_world DEFAULT_CONFIG ++ spread demo_world (Some 1)) ''project''
        = JStr ''my-project''
   \<and> get_field (objs demo_world DEFAULT_CONFIG ++ spread demo_world (Some 1)) ''version''
        = JStr ''latest''
   \<and> fst (getSecret (mock_env [response_of 403 []]) (JStr ''my-project'') ''secret-key''
          (JStr ''latest'') demo_world) = Inl (Error ''Permission denied'')
   \<and> fst (GCSecretManager_get (mock_env [response_of 403 []]) demo_handle ''secret-key'' None
          demo_world) = Inl (Error ''Permission denied'')
   \<and> fst (module_get (mock_env [response_of 403 []]) ''secret-key'' (Some 1) demo_world)
        = Inl (Error ''Permission denied'')
   \<and> UrlFetchApp_fetch (mock_env [response_of 404 []]) (requests demo_world)
     (getSecret_request (mock_env [response_of 404 []]) demo_world (JStr ''my-project'')
        ''secret-key'' (JStr ''latest'')) = Inr (response_of 404 [])
   \<and> getResponseCode (response_of 404 []) = 404
   \<and> fst (module_getSecret (mock_env [response_of 404 []]) (JStr ''my-project'') ''secret-key''
          (JStr ''latest'') demo_world) = Inr JUndefined
   \<and> fst (GCSecretManager_get (mock_env [response_of 404 []]) demo_handle ''secret-key'' None
          demo_world) = Inr JUndefined
   \<and> fst (module_get (mock_env [response_of 404 []]) ''secret-key'' (Some 1) demo_world)
        = Inr JUndefined"
proof -
  let ?m = "mergedConfig demo_handle None demo_world"
  let ?d = "objs demo_world DEFAULT_CONFIG ++ spread demo_world (Some 1)"
  have f3: "UrlFetchApp_fetch (mock_env [response_of 403 []]) (requests demo_world)
     (getSecret_request (mock_env [response_of 403 []]) demo_world (JStr ''my-project'')
        ''secret-key'' (JStr ''latest'')) = Inr (response_of 403 [])"
    by (simp add: mock_env_def demo_world_eq)
  have f4: "UrlFetchApp_fetch (mock_env [response_of 404 []]) (requests demo_world)
     (getSecret_request (mock_env [response_of 404 []]) demo_world (JStr ''my-project'')
        ''secret-key'' (JStr ''latest'')) = Inr (response_of 404 [])"
    by (simp add: mock_env_def demo_world_eq)
  have c: "getResponseCode (response_of 403 []) = 403 \<and> getResponseCode (response_of 404 []) = 404"
    by (simp add: response_of_def)
  have g: "getConfig demo_handle None demo_world = Inr ?m
           \<and> get_field ?m ''project'' = JStr ''my-project''
           \<and> get_field ?m ''version'' = JStr ''latest''"
    by (simp add: demo_handle_eq demo_world_eq demo_defs)
  have d: "get_field ?d ''project'' = JStr ''my-project''
           \<and> get_field ?d ''version'' = JStr ''latest''
           \<and> truthy (JStr ''my-project'')"
    by (simp add: demo_world_eq demo_defs)
  note t3 = C5_read_403_404 [where E = "mock_env [response_of 403 []]" and w = demo_world
      and project = "JStr ''my-project''" and key = "''secret-key''" and version = "JStr ''latest''"
      and r = "response_of 403 []" and this = demo_handle and config = None and m = ?m]
  note t3' = C5_read_403_404 [where E = "mock_env [response_of 403 []]" and w = demo_world
      and project = "JStr ''my-project''" and key = "''secret-key''" and version = "JStr ''latest''"
      and r = "response_of 403 []" and this = demo_handle and config = "Some 1" and m = ?m]
  note t4 = C5_read_403_404 [where E = "mock_env [response_of 404 []]" and w = demo_world
      and project = "JStr ''my-project''" and key = "''secret-key''" and version = "JStr ''latest''"
      and r = "response_of 404 []" and this = demo_handle and config = None and m = ?m]
  note t4' = C5_read_403_404 [where E = "mock_env [response_of 404 []]" and w = demo_world
      and project = "JStr ''my-project''" and key = "''secret-key''" and version = "JStr ''latest''"
      and r = "response_of 404 []" and this = demo_handle and config = "Some 1" and m = ?m]
  show ?thesis
    using f3 f4 c g d t3 t3' t4 t4' by simp
qed


lemma decode_body_payload_data:
  "JSON_parse E (getContentText r) = Inr (JsonObj body) \<Longrightarrow>
   map_of body ''payload'' = Some (JsonObj pl) \<Longrightarrow>
   map_of pl ''data'' = Some D \<Longrightarrow>
   decode_body E r =
     (case Utilities_base64Decode E (Some D) of
        Inl e \<Rightarrow> Inl e
      | Inr decodedData \<Rightarrow> Inr (JStr (getDataAsString E decodedData)))"
  by (simp add: decode_body_def)

text \<open>
  C6. When the transport answers the fetch-secret request with status 200 and a body that
  parses to an object whose \<open>payload\<close> is an object whose \<open>data\<close> is \<open>D\<close> (the body
  \<open>{"payload":{"data":D}}\<close>, with or without further fields beside \<open>payload\<close> and
  \<open>data\<close>), the result of \<open>getSecret\<close> and \<open>get\<close> (as methods of a handle and as
  module-level functions) is the text that \<open>getDataAsString\<close> reads from the bytes
  \<open>base64Decode(D)\<close>; a failure of the decoder is the failure of the read.
\<close>

theorem C6_read_200:
  assumes "UrlFetchApp_fetch E (requests w)
             (getSecret_request E w project key
                (if version = JUndefined then JStr ''latest'' else version)) = Inr r"
    and "getResponseCode r = 200"
    and "JSON_parse E (getContentText r) = Inr (JsonObj body)"
    and "map_of body ''payload'' = Some (JsonObj pl)"
    and "map_of pl ''data'' = Some D"
  shows "fst (getSecret E project key version w) =
           (case Utilities_base64Decode E (Some D) of
              Inl e \<Rightarrow> Inl e
            | Inr decodedData \<Rightarrow> Inr (JStr (getDataAsString E decodedData)))
       \<and> fst (module_getSecret E project key version w) = fst (getSecret E project key version w)
       \<and> (getConfig this config w = Inr m \<and> get_field m ''project'' = project
            \<and> get_field m ''version'' = version \<longrightarrow>
           fst (GCSecretManager_get E this key config w) = fst (getSecret E project key version w))
       \<and> (truthy project
            \<and> get_field (objs w DEFAULT_CONFIG ++ spread w config) ''project'' = project
            \<and> get_field (objs w DEFAULT_CONFIG ++ spread w config) ''version'' = version \<longrightarrow>
           fst (module_get E key config w) = fst (getSecret E project key version w))
       \<and> (Utilities_base64Decode E (Some D) = Inr decoded \<longrightarrow>
           fst (getSecret E project key version w) = Inr (JStr (getDataAsString E decoded)))"
proof (intro conjI impI)
  show a: "fst (getSecret E project key version w) =
           (case Utilities_base64Decode E (Some D) of
              Inl e \<Rightarrow> Inl e
            | Inr decodedData \<Rightarrow> Inr (JStr (getDataAsString E decodedData)))"
    using assms(2)
    by (simp add: getSecret_result[OF assms(1)] decode_body_payload_data[OF assms(3,4,5)])
  show "fst (module_getSecret E project key version w) = fst (getSecret E project key version w)"
    by (rule module_getSecret_result)
  show "fst (getSecret E project key version w) = Inr (JStr (getDataAsString E decoded))"
    if "Utilities_base64Decode E (Some D) = Inr decoded"
    using that a by simp
next
  assume "getConfig this config w = Inr m \<and> get_field m ''project'' = project
            \<and> get_field m ''version'' = version"
  then show "fst (GCSecretManager_get E this key config w) = fst (getSecret E project key version w)"
    using GCSecretManager_get_result[of this config w m E key] by simp
next
  assume "truthy project
            \<and> get_field (objs w DEFAULT_CONFIG ++ spread w config) ''project'' = project
            \<and> get_field (objs w DEFAULT_CONFIG ++ spread w config) ''version'' = version"
  then show "fst (module_get E key config w) = fst (getSecret E project key version w)"
    using module_get_result[of w config E key] by simp
qed

theorem C6_read_200_witness:
  \<open>UrlFetchApp_fetch (mock_env [response_of 200 ''{"name":"projects/1/secrets/secret-key/versions/1","payload":{"data":"mock-secret","dataCrc32c":"1"}}''])
     (requests demo_world)
     (getSecret_request (mock_env [response_of 200 ''{"name":"projects/1/secrets/secret-key/versions/1","payload":{"data":"mock-secret","dataCrc32c":"1"}}''])
        demo_world (JStr ''my-project'') ''secret-key'' (JStr ''latest''))
     = Inr (response_of 200 ''{"name":"projects/1/secrets/secret-key/versions/1","payload":{"data":"mock-secret","dataCrc32c":"1"}}'')
   \<and> getResponseCode (response_of 200 ''{"name":"projects/1/secrets/secret-key/versions/1","payload":{"data":"mock-secret","dataCrc32c":"1"}}'') = 200
   \<and> JSON_parse (mock_env [response_of 200 ''{"name":"projects/1/secrets/secret-key/versions/1","payload":{"data":"mock-secret","dataCrc32c":"1"}}''])
        (getContentText (response_of 200 ''{"name":"projects/1/secrets/secret-key/versions/1","payload":{"data":"mock-secret","dataCrc32c":"1"}}''))
       = Inr (JsonObj
             [(''name'', JsonStr ''projects/1/secrets/secret-key/versions/1''),
              (''payload'', JsonObj [(''data'', JsonStr ''mock-secret''),
                                     (''dataCrc32c'', JsonStr ''1'')])])
   \<and> map_of [(''name'', JsonStr ''projects/1/secrets/secret-key/versions/1''),
              (''payload'', JsonObj [(''data'', JsonStr ''mock-secret''),
                                     (''dataCrc32c'', JsonStr ''1'')])] ''payload''
       = Some (JsonObj [(''data'', JsonStr ''mock-secret''), (''dataCrc32c'', JsonStr ''1'')])
   \<and> map_of [(''data'', JsonStr ''mock-secret''), (''dataCrc32c'', JsonStr ''1'')] ''data''
       = Some (JsonStr ''mock-secret'')
   \<and> Utilities_base64Decode (mock_env [response_of 200 ''{"name":"projects/1/secrets/secret-key/versions/1","payload":{"data":"mock-secret","dataCrc32c":"1"}}''])
        (Some (JsonStr ''mock-secret'')) = Inr ''mock-secret''
   \<and> getConfig demo_handle None demo_world = Inr (mergedConfig demo_handle None demo_world)
   \<and> fst (getSecret (mock_env [response_of 200 ''{"name":"projects/1/secrets/secret-key/versions/1","payload":{"data":"mock-secret","dataCrc32c":"1"}}''])
          (JStr ''my-project'') ''secret-key'' (JStr ''latest'') demo_world)
       = Inr (JStr ''mock-secret'')
   \<and> fst (module_getSecret (mock_env [response_of 200 ''{"name":"projects/1/secrets/secret-key/versions/1","payload":{"data":"mock-secret","dataCrc32c":"1"}}''])
          (JStr ''my-project'') ''secret-key'' (JStr ''latest'') demo_world)
       = Inr (JStr ''mock-secret'')
   \<and> fst (GCSecretManager_get (mock_env [response_of 200 ''{"name":"projects/1/secrets/secret-key/versions/1","payload":{"data":"mock-secret","dataCrc32c":"1"}}''])
          demo_handle ''secret-key'' None demo_world)
       = Inr (JStr ''mock-secret'')
   \<and> fst (module_get (mock_env [response_of 200 ''{"name":"projects/1/secrets/secret-key/versions/1","payload":{"data":"mock-secret","dataCrc32c":"1"}}''])
          ''secret-key'' (Some 1) demo_world)
       = Inr (JStr ''mock-secret'')\<close>
proof -
  let ?r = \<open>response_of 200 ''{"name":"projects/1/secrets/secret-key/versions/1","payload":{"data":"mock-secret","dataCrc32c":"1"}}''\<close>
  let ?E = "mock_env [?r]"
  let ?m = "mergedConfig demo_handle None demo_world"
  let ?d = "objs demo_world DEFAULT_CONFIG ++ spread demo_world (Some 1)"
  have f: "UrlFetchApp_fetch ?E (requests demo_world)
     (getSecret_request ?E demo_world (JStr ''my-project'') ''secret-key'' (JStr ''latest''))
     = Inr ?r"
    by (simp add: mock_env_def demo_world_eq)
  have c: "getResponseCode ?r = 200"
    by (simp add: response_of_def)
  have p: "JSON_parse ?E (getContentText ?r)
       = Inr (JsonObj
             [(''name'', JsonStr ''projects/1/secrets/secret-key/versions/1''),
              (''payload'', JsonObj [(''data'', JsonStr ''mock-secret''),
                                     (''dataCrc32c'', JsonStr ''1'')])])"
    by (simp add: mock_env_def response_of_def mock_parse_def)
  have l: "map_of [(''name'', JsonStr ''projects/1/secrets/secret-key/versions/1''),
              (''payload'', JsonObj [(''data'', JsonStr ''mock-secret''),
                                     (''dataCrc32c'', JsonStr ''1'')])] ''payload''
       = Some (JsonObj [(''data'', JsonStr ''mock-secret''), (''dataCrc32c'', JsonStr ''1'')])
     \<and> map_of [(''data'', JsonStr ''mock-secret''), (''dataCrc32c'', JsonStr ''1'')] ''data''
       = Some (JsonStr ''mock-secret'')"
    by simp
  have b: "Utilities_base64Decode ?E (Some (JsonStr ''mock-secret'')) = Inr ''mock-secret''
           \<and> getDataAsString ?E ''mock-secret'' = ''mock-secret''"
    by (simp add: mock_env_def)
  have g: "getConfig demo_handle None demo_world = Inr ?m
           \<and> get_field ?m ''project'' = JStr ''my-project''
           \<and> get_field ?m ''version'' = JStr ''latest''"
    by (simp add: demo_handle_eq demo_world_eq demo_defs)
  have d: "get_field ?d ''project'' = JStr ''my-project''
           \<and> get_field ?d ''version'' = JStr ''latest''
           \<and> truthy (JStr ''my-project'')"
    by (simp add: demo_world_eq demo_defs)
  note t = C6_read_200 [where E = ?E and w = demo_world and project = "JStr ''my-project''"
      and key = "''secret-key''" and version = "JStr ''latest''" and r = ?r
      and body = "[(''name'', JsonStr ''projects/1/secrets/secret-key/versions/1''),
              (''payload'', JsonObj [(''data'', JsonStr ''mock-secret''),
                                     (''dataCrc32c'', JsonStr ''1'')])]"
      and pl = "[(''data'', JsonStr ''mock-secret''), (''dataCrc32c'', JsonStr ''1'')]"
      and D = "JsonStr ''mock-secret''" and this = demo_handle and m = ?m
      and decoded = "''mock-secret''"]
  show ?thesis
    using f c p l b g d t [where config = None] t [where config = "Some 1"] by simp
qed


section \<open>Writing a secret\<close>

lemma createSecret_request_requests:
  assumes "requests w' = requests w"
  shows "createSecret_request E w' = createSecret_request E w"
  by (intro ext) (simp add: createSecret_request_def auth_headers_def assms)

lemma createSecretVersion_request_requests:
  assumes "requests w' = requests w"
  shows "createSecretVersion_request E w' = createSecretVersion_request E w"
  by (intro ext) (simp add: createSecretVersion_request_def auth_headers_def assms)

lemma set_create_rejected:
  assumes "getConfig this config w = Inr m"
    and "UrlFetchApp_fetch E (requests w)
           (createSecret_request E w (get_field m ''project'') key) = Inr r"
    and "getResponseCode r \<notin> {200, 409}"
  shows "GCSecretManager_set E this key val config w =
           (Inl (Error (''Unexpected response code from the Secret Manager when creating a new secret: ''
                        @ num_to_string (getResponseCode r))),
            w\<lparr>requests := requests w @ [createSecret_request E w (get_field m ''project'') key]\<rparr>)"
  using assms by (simp add: GCSecretManager_set_def createSecret_def fetch_def)

lemma set_create_accepted:
  assumes "getConfig this config w = Inr m"
    and "UrlFetchApp_fetch E (requests w)
           (createSecret_request E w (get_field m ''project'') key) = Inr r"
    and "getResponseCode r \<in> {200, 409}"
  shows "GCSecretManager_set E this key val config w =
           (case createSecretVersion E (get_field m ''project'') key val
                   (w\<lparr>requests := requests w
                        @ [createSecret_request E w (get_field m ''project'') key]\<rparr>) of
              (Inl e, w2) \<Rightarrow> (Inl e, w2)
            | (Inr r2, w2) \<Rightarrow>
                if getResponseCode r2 \<noteq> 200
                then (Inl (Error
                       (''Unexpected response code from the Secret Manager when creating a secret version: ''
                        @ num_to_string (getResponseCode r2))), w2)
                else (Inr (), w2))"
  using assms by (auto simp: GCSecretManager_set_def createSecret_def fetch_def)

lemma module_set_as_handle:
  assumes "truthy (get_field (objs w DEFAULT_CONFIG ++ spread w config) ''project'')"
  obtains h w' where "module_set E key val config w = GCSecretManager_set E h key val None w'"
    and "getConfig h None w' = Inr (objs w DEFAULT_CONFIG ++ spread w config)"
    and "requests w' = requests w"
proof -
  obtain h w' where i: "init config w = (h, w')" by (cases "init config w")
  have "getConfig h None w' = Inr (objs w DEFAULT_CONFIG ++ spread w config)"
    using assms mergedConfig_init[OF i] by (simp add: getConfig_Inr)
  moreover have "module_set E key val config w = GCSecretManager_set E h key val None w'"
    by (simp add: module_set_def i)
  ultimately show thesis
    using that requests_init[OF i] by blast
qed


text \<open>
  C7. When the create-secret request of \<open>set\<close> is answered with a status other than 200 and
  409, \<open>set\<close> fails with the error "Unexpected response code from the Secret Manager when
  creating a new secret: " followed by the status, and the create-secret request is the
  only request issued: the add-version request is never sent. The same holds for the
  module-level \<open>set\<close>, whose effective configuration is the defaults overlaid with its
  argument.
\<close>

theorem C7_create_rejected:
  assumes "UrlFetchApp_fetch E (requests w) (createSecret_request E w project key) = Inr r"
    and "getResponseCode r \<notin> {200, 409}"
  shows "(getConfig this config w = Inr m \<and> get_field m ''project'' = project \<longrightarrow>
            GCSecretManager_set E this key val config w =
              (Inl (Error (''Unexpected response code from the Secret Manager when creating a new secret: ''
                           @ num_to_string (getResponseCode r))),
               w\<lparr>requests := requests w @ [createSecret_request E w project key]\<rparr>))
       \<and> (truthy project
            \<and> get_field (objs w DEFAULT_CONFIG ++ spread w config) ''project'' = project \<longrightarrow>
            fst (module_set E key val config w) =
              Inl (Error (''Unexpected response code from the Secret Manager when creating a new secret: ''
                          @ num_to_string (getResponseCode r)))
          \<and> requests (snd (module_set E key val config w)) =
              requests w @ [createSecret_request E w project key])"
proof (intro conjI impI)
  assume "getConfig this config w = Inr m \<and> get_field m ''project'' = project"
  then show "GCSecretManager_set E this key val config w =
              (Inl (Error (''Unexpected response code from the Secret Manager when creating a new secret: ''
                           @ num_to_string (getResponseCode r))),
               w\<lparr>requests := requests w @ [createSecret_request E w project key]\<rparr>)"
    using set_create_rejected[of this config w m E key r val] assms by simp
next
  assume a: "truthy project
            \<and> get_field (objs w DEFAULT_CONFIG ++ spread w config) ''project'' = project"
  then obtain h w' where
    ms: "module_set E key val config w = GCSecretManager_set E h key val None w'"
    and g: "getConfig h None w' = Inr (objs w DEFAULT_CONFIG ++ spread w config)"
    and rq: "requests w' = requests w"
    using module_set_as_handle[of w config E key val] by auto
  have "GCSecretManager_set E h key val None w' =
          (Inl (Error (''Unexpected response code from the Secret Manager when creating a new secret: ''
                       @ num_to_string (getResponseCode r))),
           w'\<lparr>requests := requests w' @ [createSecret_request E w' project key]\<rparr>)"
    using set_create_rejected[OF g, of E key r val] assms a
    by (simp add: rq createSecret_request_requests[OF rq])
  then show "fst (module_set E key val config w) =
              Inl (Error (''Unexpected response code from the Secret Manager when creating a new secret: ''
                          @ num_to_string (getResponseCode r)))"
    and "requests (snd (module_set E key val config w)) =
              requests w @ [createSecret_request E w project key]"
    by (simp_all add: ms rq createSecret_request_requests[OF rq])
qed


theorem C7_create_rejected_witness:
  "UrlFetchApp_fetch (mock_env [response_of 500 []]) (requests demo_world)
     (createSecret_request (mock_env [response_of 500 []]) demo_world (JStr ''my-project'')
        ''new-secret'') = Inr (response_of 500 [])
   \<and> getResponseCode (response_of 500 []) \<notin> {200, 409}
   \<and> getConfig demo_handle None demo_world = Inr (mergedConfig demo_handle None demo_world)
   \<and> get_field (mergedConfig demo_handle None demo_world) ''project'' = JStr ''my-project''
   \<and> fst (GCSecretManager_set (mock_env [response_of 500 []]) demo_handle ''new-secret''
          ''new-secret-value'' None demo_world)
       = Inl (Error ''Unexpected response code from the Secret Manager when creating a new secret: 500'')
   \<and> map url (requests (snd (GCSecretManager_set (mock_env [response_of 500 []]) demo_handle
          ''new-secret'' ''new-secret-value'' None demo_world)))
       = [''https://secretmanager.googleapis.com/v1/projects/my-project/secrets?secretId=new-secret'']
   \<and> truthy (JStr ''my-project'')
   \<and> get_field (objs demo_world DEFAULT_CONFIG ++ spread demo_world (Some 1)) ''project''
        = JStr ''my-project''
   \<and> fst (module_set (mock_env [response_of 500 []]) ''new-secret'' ''new-secret-value'' (Some 1)
          demo_world)
       = Inl (Error ''Unexpected response code from the Secret Manager when creating a new secret: 500'')
   \<and> map url (requests (snd (module_set (mock_env [response_of 500 []]) ''new-secret''
          ''new-secret-value'' (Some 1) demo_world)))
       = [''https://secretmanager.googleapis.com/v1/projects/my-project/secrets?secretId=new-secret'']"
proof -
  let ?E = "mock_env [response_of 500 []]"
  let ?m = "mergedConfig demo_handle None demo_world"
  have f: "UrlFetchApp_fetch ?E (requests demo_world)
     (createSecret_request ?E demo_world (JStr ''my-project'') ''new-secret'')
     = Inr (response_of 500 [])"
    by (simp add: mock_env_def demo_world_eq)
  have c: "getResponseCode (response_of 500 []) \<notin> {200, 409}"
    by (simp add: response_of_def)
  have n: "num_to_string (getResponseCode (response_of 500 [])) = ''500''"
    by (simp add: response_of_def num_to_string_def digit_chars.simps)
  have g: "getConfig demo_handle None demo_world = Inr ?m
           \<and> get_field ?m ''project'' = JStr ''my-project''"
    by (simp add: demo_handle_eq demo_world_eq demo_defs)
  have d: "truthy (JStr ''my-project'')
           \<and> get_field (objs demo_world DEFAULT_CONFIG ++ spread demo_world (Some 1)) ''project''
              = JStr ''my-project''"
    by (simp add: demo_world_eq demo_defs)
  have r: "requests demo_world = []"
    by (simp add: demo_world_eq)
  have u: "url (createSecret_request ?E demo_world (JStr ''my-project'') ''new-secret'')
           = ''https://secretmanager.googleapis.com/v1/projects/my-project/secrets?secretId=new-secret''"
    by (simp add: createSecret_request_def)
  note t = C7_create_rejected [OF f c, where this = demo_handle and m = ?m
      and val = "''new-secret-value''"]
  show ?thesis
    using f c n g d r u t [where config = None] t [where config = "Some 1"] by simp
qed

text \<open>
  C8. When the create-secret request of \<open>set\<close> is answered with status 200 or 409, \<open>set\<close>
  issues exactly two requests, the create-secret request and then the add-version request,
  whatever the answer to the second; the payload of the add-version request is the JSON
  text of \<open>{ payload: { data: base64Encode(value) } }\<close>; and when the add-version request
  is answered with status 200, \<open>set\<close> returns without raising. The same holds for the
  module-level \<open>set\<close>.
\<close>

theorem C8_create_then_add_version:
  assumes "UrlFetchApp_fetch E (requests w) (createSecret_request E w project key) = Inr r"
    and "getResponseCode r \<in> {200, 409}"
    and "w1 = w\<lparr>requests := requests w @ [createSecret_request E w project key]\<rparr>"
  shows "(getConfig this config w = Inr m \<and> get_field m ''project'' = project \<longrightarrow>
            requests (snd (GCSecretManager_set E this key val config w)) =
              requests w @ [createSecret_request E w project key,
                            createSecretVersion_request E w1 project key val]
          \<and> (UrlFetchApp_fetch E (requests w1)
                 (createSecretVersion_request E w1 project key val) = Inr r2
               \<and> getResponseCode r2 = 200 \<longrightarrow>
              fst (GCSecretManager_set E this key val config w) = Inr ()))
       \<and> (truthy project
            \<and> get_field (objs w DEFAULT_CONFIG ++ spread w config) ''project'' = project \<longrightarrow>
            requests (snd (module_set E key val config w)) =
              requests w @ [createSecret_request E w project key,
                            createSecretVersion_request E w1 project key val]
          \<and> (UrlFetchApp_fetch E (requests w1)
                 (createSecretVersion_request E w1 project key val) = Inr r2
               \<and> getResponseCode r2 = 200 \<longrightarrow>
              fst (module_set E key val config w) = Inr ()))
       \<and> payload (createSecretVersion_request E w1 project key val) =
            Some (JSON_stringify E
              (JsonObj [(''payload'',
                 JsonObj [(''data'', JsonStr (Utilities_base64Encode E val))])]))
       \<and> url (createSecretVersion_request E w1 project key val) =
            ''https://secretmanager.googleapis.com/v1/projects/'' @ to_string project
            @ ''/secrets/'' @ key @ '':addVersion''
       \<and> url (createSecret_request E w project key) =
            ''https://secretmanager.googleapis.com/v1/projects/'' @ to_string project
            @ ''/secrets?secretId='' @ key"
proof -
  have handle_case:
    "requests (snd (GCSecretManager_set E h key val c wa)) =
       requests w @ [createSecret_request E w project key,
                     createSecretVersion_request E w1 project key val]
     \<and> (UrlFetchApp_fetch E (requests w1)
            (createSecretVersion_request E w1 project key val) = Inr r2
          \<and> getResponseCode r2 = 200 \<longrightarrow>
         fst (GCSecretManager_set E h key val c wa) = Inr ())"
    if g: "getConfig h c wa = Inr ma" and p: "get_field ma ''project'' = project"
      and rq: "requests wa = requests w"
    for h c wa ma
  proof -
    let ?w1 = "wa\<lparr>requests := requests wa @ [createSecret_request E wa project key]\<rparr>"
    have rq1: "requests ?w1 = requests w1"
      by (simp add: assms(3) rq createSecret_request_requests[OF rq])
    have cr: "createSecret_request E wa project key = createSecret_request E w project key"
      by (simp add: createSecret_request_requests[OF rq])
    have cv: "createSecretVersion_request E ?w1 project key val
              = createSecretVersion_request E w1 project key val"
      by (simp add: createSecretVersion_request_requests[OF rq1])
    have f: "UrlFetchApp_fetch E (requests wa)
               (createSecret_request E wa (get_field ma ''project'') key) = Inr r"
      using assms(1) by (simp add: p rq cr)
    have s: "GCSecretManager_set E h key val c wa =
           (case createSecretVersion E project key val ?w1 of
              (Inl e, w2) \<Rightarrow> (Inl e, w2)
            | (Inr r2, w2) \<Rightarrow>
                if getResponseCode r2 \<noteq> 200
                then (Inl (Error
                       (''Unexpected response code from the Secret Manager when creating a secret version: ''
                        @ num_to_string (getResponseCode r2))), w2)
                else (Inr (), w2))"
      using set_create_accepted[OF g f assms(2), of val] by (simp add: p)
    have r1: "requests w1 = requests w @ [createSecret_request E w project key]"
      by (simp add: assms(3))
    have cv2: "createSecretVersion_request E
                 (wa\<lparr>requests := requests w @ [createSecret_request E w project key]\<rparr>)
                 project key val
               = createSecretVersion_request E w1 project key val"
      using cv by (simp add: rq cr)
    have lg: "requests (snd (GCSecretManager_set E h key val c wa)) =
       requests w @ [createSecret_request E w project key,
                     createSecretVersion_request E w1 project key val]"
      unfolding s
      by (simp add: createSecretVersion_def fetch_def cv2 cr rq split: sum.split)
    have ok: "fst (GCSecretManager_set E h key val c wa) = Inr ()"
      if "UrlFetchApp_fetch E (requests w1)
            (createSecretVersion_request E w1 project key val) = Inr r2
          \<and> getResponseCode r2 = 200"
      unfolding s using that
      by (simp add: createSecretVersion_def fetch_def cv2 cr rq r1)
    show ?thesis
      using lg ok by blast
  qed
  have A: "getConfig this config w = Inr m \<and> get_field m ''project'' = project \<longrightarrow>
            requests (snd (GCSecretManager_set E this key val config w)) =
              requests w @ [createSecret_request E w project key,
                            createSecretVersion_request E w1 project key val]
          \<and> (UrlFetchApp_fetch E (requests w1)
                 (createSecretVersion_request E w1 project key val) = Inr r2
               \<and> getResponseCode r2 = 200 \<longrightarrow>
              fst (GCSecretManager_set E this key val config w) = Inr ())"
    using handle_case[of this config w m] by simp
  have B: "truthy project
            \<and> get_field (objs w DEFAULT_CONFIG ++ spread w config) ''project'' = project \<longrightarrow>
            requests (snd (module_set E key val config w)) =
              requests w @ [createSecret_request E w project key,
                            createSecretVersion_request E w1 project key val]
          \<and> (UrlFetchApp_fetch E (requests w1)
                 (createSecretVersion_request E w1 project key val) = Inr r2
               \<and> getResponseCode r2 = 200 \<longrightarrow>
              fst (module_set E key val config w) = Inr ())"
  proof
    assume a: "truthy project
            \<and> get_field (objs w DEFAULT_CONFIG ++ spread w config) ''project'' = project"
    then obtain h w' where
      ms: "module_set E key val config w = GCSecretManager_set E h key val None w'"
      and g: "getConfig h None w' = Inr (objs w DEFAULT_CONFIG ++ spread w config)"
      and rq: "requests w' = requests w"
      using module_set_as_handle[of w config E key val] by auto
    show "requests (snd (module_set E key val config w)) =
              requests w @ [createSecret_request E w project key,
                            createSecretVersion_request E w1 project key val]
          \<and> (UrlFetchApp_fetch E (requests w1)
                 (createSecretVersion_request E w1 project key val) = Inr r2
               \<and> getResponseCode r2 = 200 \<longrightarrow>
              fst (module_set E key val config w) = Inr ())"
      unfolding ms using handle_case[OF g _ rq] a by simp
  qed
  show ?thesis
    using A B by (simp add: createSecretVersion_request_def createSecret_request_def)
qed


theorem C8_create_then_add_version_witness:
  \<open>UrlFetchApp_fetch (mock_env [response_of 409 [], response_of 200 []]) (requests demo_world)
     (createSecret_request (mock_env [response_of 409 [], response_of 200 []]) demo_world
        (JStr ''my-project'') ''new-secret'') = Inr (response_of 409 [])
   \<and> getResponseCode (response_of 409 []) \<in> {200, 409}
   \<and> getConfig demo_handle None demo_world = Inr (mergedConfig demo_handle None demo_world)
   \<and> get_field (mergedConfig demo_handle None demo_world) ''project'' = JStr ''my-project''
   \<and> map url (requests (snd (GCSecretManager_set (mock_env [response_of 409 [], response_of 200 []])
          demo_handle ''new-secret'' ''new-secret-value'' None demo_world)))
       = [''https://secretmanager.googleapis.com/v1/projects/my-project/secrets?secretId=new-secret'',
          ''https://secretmanager.googleapis.com/v1/projects/my-project/secrets/new-secret:addVersion'']
   \<and> map payload (requests (snd (GCSecretManager_set
          (mock_env [response_of 409 [], response_of 200 []])
          demo_handle ''new-secret'' ''new-secret-value'' None demo_world)))
       = [Some ''{"replication":{"automatic":{}}}'',
          Some ''{"payload":{"data":"new-secret-value"}}'']
   \<and> fst (GCSecretManager_set (mock_env [response_of 409 [], response_of 200 []])
          demo_handle ''new-secret'' ''new-secret-value'' None demo_world) = Inr ()
   \<and> truthy (JStr ''my-project'')
   \<and> get_field (objs demo_world DEFAULT_CONFIG ++ spread demo_world (Some 1)) ''project''
        = JStr ''my-project''
   \<and> map url (requests (snd (module_set (mock_env [response_of 409 [], response_of 200 []])
          ''new-secret'' ''new-secret-value'' (Some 1) demo_world)))
       = [''https://secretmanager.googleapis.com/v1/projects/my-project/secrets?secretId=new-secret'',
          ''https://secretmanager.googleapis.com/v1/projects/my-project/secrets/new-secret:addVersion'']
   \<and> fst (module_set (mock_env [response_of 409 [], response_of 200 []])
          ''new-secret'' ''new-secret-value'' (Some 1) demo_world) = Inr ()\<close>
proof -
  let ?E = "mock_env [response_of 409 [], response_of 200 []]"
  let ?m = "mergedConfig demo_handle None demo_world"
  let ?p = "JStr ''my-project''"
  let ?c = "createSecret_request ?E demo_world ?p ''new-secret''"
  let ?w1 = "demo_world\<lparr>requests := requests demo_world @ [?c]\<rparr>"
  let ?a = "createSecretVersion_request ?E ?w1 ?p ''new-secret'' ''new-secret-value''"
  have f: "UrlFetchApp_fetch ?E (requests demo_world) ?c = Inr (response_of 409 [])"
    by (simp add: mock_env_def demo_world_eq)
  have c: "getResponseCode (response_of 409 []) \<in> {200, 409}"
    by (simp add: response_of_def)
  have f2: "UrlFetchApp_fetch ?E (requests ?w1) ?a = Inr (response_of 200 [])
            \<and> getResponseCode (response_of 200 []) = 200"
    by (simp add: mock_env_def demo_world_eq response_of_def)
  have g: "getConfig demo_handle None demo_world = Inr ?m
           \<and> get_field ?m ''project'' = ?p"
    by (simp add: demo_handle_eq demo_world_eq demo_defs)
  have d: "truthy ?p
           \<and> get_field (objs demo_world DEFAULT_CONFIG ++ spread demo_world (Some 1)) ''project''
              = ?p"
    by (simp add: demo_world_eq demo_defs)
  have r: "requests demo_world = []"
    by (simp add: demo_world_eq)
  have u: \<open>url ?c
           = ''https://secretmanager.googleapis.com/v1/projects/my-project/secrets?secretId=new-secret''
         \<and> payload ?c = Some ''{"replication":{"automatic":{}}}''
         \<and> url ?a
           = ''https://secretmanager.googleapis.com/v1/projects/my-project/secrets/new-secret:addVersion''\<close>
    by (simp add: createSecret_request_def createSecretVersion_request_def mock_env_def
        mock_stringify_def)
  have s: \<open>JSON_stringify ?E (JsonObj [(''payload'',
                 JsonObj [(''data'', JsonStr (Utilities_base64Encode ?E ''new-secret-value''))])])
           = ''{"payload":{"data":"new-secret-value"}}''\<close>
    by (simp add: mock_env_def mock_stringify_def)
  note t = C8_create_then_add_version [OF f c refl, where this = demo_handle and m = ?m
      and val = "''new-secret-value''" and ?r2.0 = "response_of 200 []"]
  have k1: "requests (snd (GCSecretManager_set ?E demo_handle ''new-secret'' ''new-secret-value''
              None demo_world)) = [?c, ?a]
            \<and> fst (GCSecretManager_set ?E demo_handle ''new-secret'' ''new-secret-value''
              None demo_world) = Inr ()"
    using t [where config = None] g f2 r by simp
  have k2: "requests (snd (module_set ?E ''new-secret'' ''new-secret-value'' (Some 1) demo_world))
              = [?c, ?a]
            \<and> fst (module_set ?E ''new-secret'' ''new-secret-value'' (Some 1) demo_world) = Inr ()"
    using t [where config = "Some 1"] d f2 r by simp
  have k3: "payload ?a = Some (JSON_stringify ?E (JsonObj [(''payload'',
                 JsonObj [(''data'', JsonStr (Utilities_base64Encode ?E ''new-secret-value''))])]))"
    using t [where config = None] by blast
  show ?thesis
    using f c g d u k1 k2 k3 s by simp
qed


section \<open>Which project a request is built from\<close>

lemma GCSecretManager_get_issued:
  "requests (snd (GCSecretManager_get E this key config w)) =
     (if truthy (get_field (mergedConfig this config w) ''project'')
      then requests w @
        [getSecret_request E w (get_field (mergedConfig this config w) ''project'') key
           (if get_field (mergedConfig this config w) ''version'' = JUndefined
            then JStr ''latest'' else get_field (mergedConfig this config w) ''version'')]
      else requests w)"
  by (simp add: GCSecretManager_get_def getConfig_def getSecret_requests)

lemma GCSecretManager_set_issued:
  "requests (snd (GCSecretManager_set E this key val config w)) \<in>
     (if truthy (get_field (mergedConfig this config w) ''project'')
      then {requests w @
              [createSecret_request E w (get_field (mergedConfig this config w) ''project'') key],
            requests w @
              [createSecret_request E w (get_field (mergedConfig this config w) ''project'') key,
               createSecretVersion_request E
                 (w\<lparr>requests := requests w @
                    [createSecret_request E w (get_field (mergedConfig this config w) ''project'')
                       key]\<rparr>)
                 (get_field (mergedConfig this config w) ''project'') key val]}
      else {requests w})"
  by (simp add: GCSecretManager_set_def getConfig_def createSecret_def createSecretVersion_def
      fetch_def split: sum.split)

lemma module_get_issued:
  "requests (snd (module_get E key config w)) =
     (if truthy (get_field (objs w DEFAULT_CONFIG ++ spread w config) ''project'')
      then requests w @
        [getSecret_request E w (get_field (objs w DEFAULT_CONFIG ++ spread w config) ''project'') key
           (if get_field (objs w DEFAULT_CONFIG ++ spread w config) ''version'' = JUndefined
            then JStr ''latest''
            else get_field (objs w DEFAULT_CONFIG ++ spread w config) ''version'')]
      else requests w)"
proof -
  obtain h w' where i: "init config w = (h, w')" by (cases "init config w")
  note rq = requests_init[OF i]
  show ?thesis
    by (simp add: module_get_def i GCSecretManager_get_issued mergedConfig_init[OF i] rq
        getSecret_request_requests[OF rq])
qed

lemma module_set_issued:
  "requests (snd (module_set E key val config w)) \<in>
     (if truthy (get_field (objs w DEFAULT_CONFIG ++ spread w config) ''project'')
      then {requests w @
              [createSecret_request E w
                 (get_field (objs w DEFAULT_CONFIG ++ spread w config) ''project'') key],
            requests w @
              [createSecret_request E w
                 (get_field (objs w DEFAULT_CONFIG ++ spread w config) ''project'') key,
               createSecretVersion_request E
                 (w\<lparr>requests := requests w @
                    [createSecret_request E w
                       (get_field (objs w DEFAULT_CONFIG ++ spread w config) ''project'') key]\<rparr>)
                 (get_field (objs w DEFAULT_CONFIG ++ spread w config) ''project'') key val]}
      else {requests w})"
proof -
  let ?p = "get_field (objs w DEFAULT_CONFIG ++ spread w config) ''project''"
  obtain h w' where i: "init config w = (h, w')" by (cases "init config w")
  note rq = requests_init[OF i]
  have v: "createSecretVersion_request E
             (w'\<lparr>requests := requests w @ [createSecret_request E w ?p key]\<rparr>) ?p key val
           = createSecretVersion_request E
             (w\<lparr>requests := requests w @ [createSecret_request E w ?p key]\<rparr>) ?p key val"
    by (simp add: createSecretVersion_request_def auth_headers_def)
  have ms: "module_set E key val config w = GCSecretManager_set E h key val None w'"
    by (simp add: module_set_def i)
  note s = GCSecretManager_set_issued[of E h key val None w',
      unfolded mergedConfig_init[OF i] rq createSecret_request_requests[OF rq] v]
  show ?thesis
    unfolding ms by (rule s)
qed

lemma createSecret_requests:
  "requests (snd (createSecret E project key w)) =
     requests w @ [createSecret_request E w project key]"
  by (simp add: createSecret_def fetch_def)

lemma createSecretVersion_requests:
  "requests (snd (createSecretVersion E project key val w)) =
     requests w @ [createSecretVersion_request E w project key val]"
  by (simp add: createSecretVersion_def fetch_def)


lemma module_primitives_requests:
  "requests (snd (module_getSecret E project key version w)) =
     requests w @ [getSecret_request E w project key
                     (if version = JUndefined then JStr ''latest'' else version)]"
  "requests (snd (module_createSecret E project key w)) =
     requests w @ [createSecret_request E w project key]"
  "requests (snd (module_createSecretVersion E project key val w)) =
     requests w @ [createSecretVersion_request E w project key val]"
proof -
  obtain h w' where i: "init None w = (h, w')" by (cases "init None w")
  note rq = requests_init[OF i]
  show "requests (snd (module_getSecret E project key version w)) =
     requests w @ [getSecret_request E w project key
                     (if version = JUndefined then JStr ''latest'' else version)]"
    by (simp add: module_getSecret_def i getSecret_requests rq getSecret_request_requests[OF rq])
  show "requests (snd (module_createSecret E project key w)) =
     requests w @ [createSecret_request E w project key]"
    by (simp add: module_createSecret_def i createSecret_requests rq
        createSecret_request_requests[OF rq])
  show "requests (snd (module_createSecretVersion E project key val w)) =
     requests w @ [createSecretVersion_request E w project key val]"
    by (simp add: module_createSecretVersion_def i createSecretVersion_requests rq
        createSecretVersion_request_requests[OF rq])
qed

text \<open>
  C9 as stated fails for the direct primitives: they build the URL from the \<open>project\<close>
  argument as it is given. \<open>getSecret("", "secret-key")\<close> issues a request for
  \<open>.../projects//secrets/secret-key/versions/latest:access\<close>, and
  \<open>createSecret(null, "new-secret")\<close> one for \<open>.../projects/null/secrets?secretId=new-secret\<close>.
\<close>

theorem C9_primitives_counterexample:
  "\<not> truthy (JStr [])
   \<and> map url (requests (snd (getSecret (mock_env [response_of 404 []]) (JStr []) ''secret-key''
         JUndefined loaded)))
       = [''https://secretmanager.googleapis.com/v1/projects//secrets/secret-key/versions/latest:access'']
   \<and> map url (requests (snd (module_getSecret (mock_env [response_of 404 []]) (JStr [])
         ''secret-key'' JUndefined loaded)))
       = [''https://secretmanager.googleapis.com/v1/projects//secrets/secret-key/versions/latest:access'']
   \<and> \<not> truthy JNull
   \<and> map url (requests (snd (module_createSecret (mock_env [response_of 200 []]) JNull
         ''new-secret'' loaded)))
       = [''https://secretmanager.googleapis.com/v1/projects/null/secrets?secretId=new-secret'']
   \<and> map url (requests (snd (createSecretVersion (mock_env [response_of 200 []]) JNull
         ''new-secret'' ''new-secret-value'' loaded)))
       = [''https://secretmanager.googleapis.com/v1/projects/null/secrets/new-secret:addVersion'']"
  by (simp add: getSecret_requests createSecretVersion_requests module_primitives_requests
      getSecret_request_def createSecret_request_def createSecretVersion_request_def loaded_def)

text \<open>
  C9, amended. \<open>get\<close> and \<open>set\<close>, on a handle and at module level, issue a request only when
  the resolved \<open>project\<close> is truthy (so neither \<open>undefined\<close>, nor \<open>null\<close>, nor the empty
  string), and every request they issue is built from that resolved \<open>project\<close>. The direct
  primitives \<open>getSecret\<close>, \<open>createSecret\<close> and \<open>createSecretVersion\<close> always issue their
  request, built from the \<open>project\<close> argument as given, without validating it.
\<close>

theorem C9_resolved_project_truthy:
  assumes "p = get_field (mergedConfig this config w) ''project''"
    and "v = get_field (mergedConfig this config w) ''version''"
    and "p' = get_field (objs w DEFAULT_CONFIG ++ spread w config) ''project''"
    and "v' = get_field (objs w DEFAULT_CONFIG ++ spread w config) ''version''"
  shows "requests (snd (GCSecretManager_get E this key config w)) =
           (if truthy p
            then requests w @ [getSecret_request E w p key
                                 (if v = JUndefined then JStr ''latest'' else v)]
            else requests w)
       \<and> requests (snd (GCSecretManager_set E this key val config w)) \<in>
           (if truthy p
            then {requests w @ [createSecret_request E w p key],
                  requests w @ [createSecret_request E w p key,
                    createSecretVersion_request E
                      (w\<lparr>requests := requests w @ [createSecret_request E w p key]\<rparr>)
                      p key val]}
            else {requests w})
       \<and> requests (snd (module_get E key config w)) =
           (if truthy p'
            then requests w @ [getSecret_request E w p' key
                                 (if v' = JUndefined then JStr ''latest'' else v')]
            else requests w)
       \<and> requests (snd (module_set E key val config w)) \<in>
           (if truthy p'
            then {requests w @ [createSecret_request E w p' key],
                  requests w @ [createSecret_request E w p' key,
                    createSecretVersion_request E
                      (w\<lparr>requests := requests w @ [createSecret_request E w p' key]\<rparr>)
                      p' key val]}
            else {requests w})
       \<and> (requests (snd (GCSecretManager_get E this key config w)) \<noteq> requests w
            \<or> requests (snd (GCSecretManager_set E this key val config w)) \<noteq> requests w
           \<longrightarrow> p \<noteq> JUndefined \<and> p \<noteq> JNull \<and> p \<noteq> JStr [])
       \<and> (requests (snd (module_get E key config w)) \<noteq> requests w
            \<or> requests (snd (module_set E key val config w)) \<noteq> requests w
           \<longrightarrow> p' \<noteq> JUndefined \<and> p' \<noteq> JNull \<and> p' \<noteq> JStr [])
       \<and> requests (snd (getSecret E project key version w)) =
           requests w @ [getSecret_request E w project key
                           (if version = JUndefined then JStr ''latest'' else version)]
       \<and> requests (snd (createSecret E project key w)) =
           requests w @ [createSecret_request E w project key]
       \<and> requests (snd (createSecretVersion E project key val w)) =
           requests w @ [createSecretVersion_request E w project key val]
       \<and> url (getSecret_request E w project key version) =
           ''https://secretmanager.googleapis.com/v1/projects/'' @ to_string project
           @ ''/secrets/'' @ key @ ''/versions/'' @ to_string version @ '':access''"
proof -
  note g = GCSecretManager_get_issued[of E this key config w, folded assms(1) assms(2)]
  note s = GCSecretManager_set_issued[of E this key val config w, folded assms(1)]
  note mg = module_get_issued[of E key config w, folded assms(3) assms(4)]
  note ms = module_set_issued[of E key val config w, folded assms(3)]
  have t: "truthy x \<Longrightarrow> x \<noteq> JUndefined \<and> x \<noteq> JNull \<and> x \<noteq> JStr []" for x
    by (cases x) simp_all
  have h: "p \<noteq> JUndefined \<and> p \<noteq> JNull \<and> p \<noteq> JStr []"
    if "requests (snd (GCSecretManager_get E this key config w)) \<noteq> requests w
        \<or> requests (snd (GCSecretManager_set E this key val config w)) \<noteq> requests w"
  proof -
    from that g s have "truthy p"
      by (auto split: if_splits)
    then show ?thesis by (rule t)
  qed
  have h': "p' \<noteq> JUndefined \<and> p' \<noteq> JNull \<and> p' \<noteq> JStr []"
    if "requests (snd (module_get E key config w)) \<noteq> requests w
        \<or> requests (snd (module_set E key val config w)) \<noteq> requests w"
  proof -
    from that mg ms have "truthy p'"
      by (auto split: if_splits)
    then show ?thesis by (rule t)
  qed
  have u: "url (getSecret_request E w project key version) =
           ''https://secretmanager.googleapis.com/v1/projects/'' @ to_string project
           @ ''/secrets/'' @ key @ ''/versions/'' @ to_string version @ '':access''"
    by (simp add: getSecret_request_def)
  show ?thesis
    using g s mg ms h h' u getSecret_requests[of E project key version w]
      createSecret_requests[of E project key w]
      createSecretVersion_requests[of E project key val w]
    by blast
qed


theorem C9_resolved_project_truthy_witness:
  "requests (snd (GCSecretManager_get (mock_env [response_of 404 []]) demo_handle
      ''does-not-exist'' None demo_world)) \<noteq> requests demo_world
   \<and> get_field (mergedConfig demo_handle None demo_world) ''project'' = JStr ''my-project''
   \<and> get_field (mergedConfig demo_handle None demo_world) ''project'' \<noteq> JNull
   \<and> get_field (mergedConfig demo_handle None demo_world) ''project'' \<noteq> JStr []
   \<and> map url (requests (snd (GCSecretManager_get (mock_env [response_of 404 []]) demo_handle
         ''does-not-exist'' None demo_world)))
       = [''https://secretmanager.googleapis.com/v1/projects/my-project/secrets/does-not-exist/versions/latest:access'']
   \<and> get_field (mergedConfig demo_handle (Some 4) demo_world) ''project'' = JNull
   \<and> requests (snd (GCSecretManager_set (mock_env [response_of 200 []]) demo_handle
         ''new-secret'' ''new-secret-value'' (Some 4) demo_world)) = requests demo_world
   \<and> get_field (objs demo_world DEFAULT_CONFIG ++ spread demo_world (Some 4)) ''project'' = JNull
   \<and> requests (snd (module_get (mock_env [response_of 200 []]) ''does-not-exist'' (Some 4)
         demo_world)) = requests demo_world"
proof -
  let ?m = "mergedConfig demo_handle None demo_world"
  have a: "get_field ?m ''project'' = JStr ''my-project''
           \<and> get_field ?m ''version'' = JStr ''latest''"
    by (simp add: demo_handle_eq demo_world_eq demo_defs)
  have b: "get_field (mergedConfig demo_handle (Some 4) demo_world) ''project'' = JNull
           \<and> get_field (objs demo_world DEFAULT_CONFIG ++ spread demo_world (Some 4)) ''project''
              = JNull"
    by (simp add: demo_handle_eq demo_world_eq demo_defs)
  have r: "requests demo_world = []"
    by (simp add: demo_world_eq)
  note t1 = C9_resolved_project_truthy [OF refl refl refl refl, where this = demo_handle
      and config = None and w = demo_world and E = "mock_env [response_of 404 []]"
      and key = "''does-not-exist''" and project = "JStr ''my-project''"
      and version = "JStr ''latest''"]
  note t2 = C9_resolved_project_truthy [OF refl refl refl refl, where this = demo_handle
      and config = "Some 4" and w = demo_world and E = "mock_env [response_of 200 []]"
      and key = "''new-secret''" and val = "''new-secret-value''"]
  note t3 = C9_resolved_project_truthy [OF refl refl refl refl, where this = demo_handle
      and config = "Some 4" and w = demo_world and E = "mock_env [response_of 200 []]"
      and key = "''does-not-exist''"]
  have k1: "requests (snd (GCSecretManager_get (mock_env [response_of 404 []]) demo_handle
      ''does-not-exist'' None demo_world))
      = [getSecret_request (mock_env [response_of 404 []]) demo_world (JStr ''my-project'')
           ''does-not-exist'' (JStr ''latest'')]"
    using t1 a r by simp
  have k2: "requests (snd (GCSecretManager_set (mock_env [response_of 200 []]) demo_handle
         ''new-secret'' ''new-secret-value'' (Some 4) demo_world)) = requests demo_world"
    using t2 b by simp
  have k3: "requests (snd (module_get (mock_env [response_of 200 []]) ''does-not-exist'' (Some 4)
         demo_world)) = requests demo_world"
    using t3 b by simp
  show ?thesis
    using a b r k1 k2 k3 by (simp add: getSecret_request_def)
qed


section \<open>Handles do not share their configuration\<close>

lemma init_fresh:
  assumes "init c w = (h, w1)"
  shows "this_config h = nxt w" and "nxt w1 = Suc (nxt w)"
    and "objs w1 (nxt w) = objs w DEFAULT_CONFIG ++ spread w c"
    and "a \<noteq> nxt w \<Longrightarrow> objs w1 a = objs w a"
  using assms by (auto simp: init_def alloc_def GCSecretManager_new_def)

lemma call_setter_frame:
  assumes "call_setter h c w = (h', w')"
  shows "h' = h" and "nxt w' = nxt w" and "requests w' = requests w"
    and "a \<noteq> this_config h \<Longrightarrow> objs w' a = objs w a"
  using assms by (cases c; auto simp: setProject_def setVersion_def)+

lemma chain_setters_frame:
  assumes "chain_setters h cs w = (h', w')"
  shows "h' = h \<and> nxt w' = nxt w \<and> requests w' = requests w
         \<and> (\<forall>a. a \<noteq> this_config h \<longrightarrow> objs w' a = objs w a)"
  using assms
proof (induction cs arbitrary: w)
  case Nil
  then show ?case by simp
next
  case (Cons c cs)
  obtain h1 w1 where s: "call_setter h c w = (h1, w1)" by (cases "call_setter h c w")
  note f = call_setter_frame[OF s]
  from Cons.prems s f(1) have "chain_setters h cs w1 = (h', w')"
    by simp
  from Cons.IH[OF this] f show ?case
    by simp
qed

lemma requests_only:
  "objs (snd (getSecret E project key version w)) = objs w
   \<and> nxt (snd (getSecret E project key version w)) = nxt w"
  "objs (snd (createSecret E project key w)) = objs w
   \<and> nxt (snd (createSecret E project key w)) = nxt w"
  "objs (snd (createSecretVersion E project key val w)) = objs w
   \<and> nxt (snd (createSecretVersion E project key val w)) = nxt w"
  "objs (snd (GCSecretManager_get E this key config w)) = objs w
   \<and> nxt (snd (GCSecretManager_get E this key config w)) = nxt w"
  "objs (snd (GCSecretManager_set E this key val config w)) = objs w
   \<and> nxt (snd (GCSecretManager_set E this key val config w)) = nxt w"
  by (simp_all add: getSecret_def createSecret_def createSecretVersion_def fetch_def Let_def
      GCSecretManager_get_def GCSecretManager_set_def split: sum.split)

text \<open>
  C10. \<open>init(c)\<close> stores in the new handle a reference to a new object, at an address never
  handed out before, holding the properties of \<open>DEFAULT_CONFIG\<close> overlaid with those of \<open>c\<close>,
  and changes no other object. A chain of \<open>setProject\<close>/\<open>setVersion\<close> calls on that handle,
  run in the world \<open>wa\<close>, returns the same handle and changes that object only: the object
  \<open>DEFAULT_CONFIG\<close>, the caller's object \<open>c\<close>, and the stored configuration of every other
  handle made by \<open>init\<close>, earlier or later, are as they were in \<open>wa\<close>.
\<close>

theorem C10_init_copy_is_private:
  assumes "init c w = (h, w1)"
    and "chain_setters h cs wa = (h', wb)"
  shows "this_config h = nxt w
       \<and> objs w1 (this_config h) = objs w DEFAULT_CONFIG ++ spread w c
       \<and> (\<forall>a. a \<noteq> this_config h \<longrightarrow> objs w1 a = objs w a)
       \<and> h' = h
       \<and> (\<forall>a. a \<noteq> this_config h \<longrightarrow> objs wb a = objs wa a)
       \<and> (DEFAULT_CONFIG < nxt w \<longrightarrow> objs wb DEFAULT_CONFIG = objs wa DEFAULT_CONFIG)
       \<and> (c = Some a \<and> a < nxt w \<longrightarrow> objs wb a = objs wa a)
       \<and> (init c' w' = (g, w'') \<and> (nxt w'' \<le> nxt w \<or> nxt w1 \<le> nxt w') \<longrightarrow>
            this_config g \<noteq> this_config h
          \<and> objs wb (this_config g) = objs wa (this_config g))"
proof -
  note i = init_fresh[OF assms(1)]
  note f = chain_setters_frame[OF assms(2)]
  have other: "this_config g \<noteq> this_config h"
    if "init c' w' = (g, w'') \<and> (nxt w'' \<le> nxt w \<or> nxt w1 \<le> nxt w')"
    using that init_fresh(1,2)[of c' w' g w''] i(1,2) by auto
  show ?thesis
    using i f other by auto
qed


theorem C10_init_copy_is_private_witness:
  "init (Some 1) (snd (init None (snd (alloc [''project'' \<mapsto> JStr ''my-project''] loaded))))
     = (\<lparr>this_config = 3\<rparr>,
        snd (init (Some 1) (snd (init None (snd (alloc [''project'' \<mapsto> JStr ''my-project''] loaded))))))
   \<and> init None (snd (alloc [''project'' \<mapsto> JStr ''my-project''] loaded))
     = (\<lparr>this_config = 2\<rparr>, snd (init None (snd (alloc [''project'' \<mapsto> JStr ''my-project''] loaded))))
   \<and> objs (snd (chain_setters \<lparr>this_config = 3\<rparr> [SetProject (JStr ''other-project''), SetVersion (JNum 3)]
        (snd (init (Some 1) (snd (init None (snd (alloc [''project'' \<mapsto> JStr ''my-project''] loaded))))))))
        DEFAULT_CONFIG = DEFAULT_CONFIG_literal
   \<and> objs (snd (chain_setters \<lparr>this_config = 3\<rparr> [SetProject (JStr ''other-project''), SetVersion (JNum 3)]
        (snd (init (Some 1) (snd (init None (snd (alloc [''project'' \<mapsto> JStr ''my-project''] loaded))))))))
        1 = [''project'' \<mapsto> JStr ''my-project'']
   \<and> objs (snd (chain_setters \<lparr>this_config = 3\<rparr> [SetProject (JStr ''other-project''), SetVersion (JNum 3)]
        (snd (init (Some 1) (snd (init None (snd (alloc [''project'' \<mapsto> JStr ''my-project''] loaded))))))))
        2 = DEFAULT_CONFIG_literal
   \<and> objs (snd (chain_setters \<lparr>this_config = 3\<rparr> [SetProject (JStr ''other-project''), SetVersion (JNum 3)]
        (snd (init (Some 1) (snd (init None (snd (alloc [''project'' \<mapsto> JStr ''my-project''] loaded))))))))
        3 = [''project'' \<mapsto> JStr ''other-project'', ''version'' \<mapsto> JNum 3]"
proof -
  let ?w0 = "snd (alloc [''project'' \<mapsto> JStr ''my-project''] loaded)"
  let ?wg = "snd (init None ?w0)"
  let ?w1 = "snd (init (Some 1) ?wg)"
  let ?h = "\<lparr>this_config = 3\<rparr>"
  let ?g = "\<lparr>this_config = 2\<rparr>"
  let ?cs = "[SetProject (JStr ''other-project''), SetVersion (JNum 3)]"
  let ?wb = "snd (chain_setters ?h ?cs ?w1)"
  have w0: "?w0 = \<lparr>objs = (\<lambda>a. Map.empty)
        (0 := DEFAULT_CONFIG_literal, 1 := [''project'' \<mapsto> JStr ''my-project'']),
      nxt = 2, requests = []\<rparr>"
    by (simp add: alloc_def loaded_def DEFAULT_CONFIG_def numeral_eq_Suc)
  have ig: "init None ?w0 = (?g, ?wg)"
    unfolding w0 by (simp add: init_def alloc_def GCSecretManager_new_def)
  have wg: "?wg = \<lparr>objs = (\<lambda>a. Map.empty)
        (0 := DEFAULT_CONFIG_literal, 1 := [''project'' \<mapsto> JStr ''my-project''],
         2 := DEFAULT_CONFIG_literal),
      nxt = 3, requests = []\<rparr>"
    unfolding w0
    by (simp add: init_def alloc_def GCSecretManager_new_def spread_def DEFAULT_CONFIG_def
        numeral_eq_Suc)
  have ih: "init (Some 1) ?wg = (?h, ?w1)"
    unfolding wg by (simp add: init_def alloc_def GCSecretManager_new_def)
  have w1: "objs ?w1 = (\<lambda>a. Map.empty)
        (0 := DEFAULT_CONFIG_literal, 1 := [''project'' \<mapsto> JStr ''my-project''],
         2 := DEFAULT_CONFIG_literal,
         3 := DEFAULT_CONFIG_literal ++ [''project'' \<mapsto> JStr ''my-project''])
      \<and> nxt ?w1 = 4"
    unfolding wg
    by (simp add: init_def alloc_def GCSecretManager_new_def spread_def DEFAULT_CONFIG_def
        numeral_eq_Suc)
  have ch: "chain_setters ?h ?cs ?w1 = (?h, ?wb)"
    by (simp add: setProject_def setVersion_def)
  have n: "DEFAULT_CONFIG < nxt ?wg \<and> 1 < nxt ?wg \<and> nxt ?wg \<le> nxt ?wg \<and> nxt ?wg = 3"
    by (simp add: wg DEFAULT_CONFIG_def)
  note t = C10_init_copy_is_private [OF ih ch, where a = 1 and c' = None and w' = ?w0
      and g = ?g and w'' = ?wg]
  have k0: "objs ?wb DEFAULT_CONFIG = DEFAULT_CONFIG_literal"
    using t n w1 by (simp add: DEFAULT_CONFIG_def)
  have k1: "objs ?wb 1 = [''project'' \<mapsto> JStr ''my-project'']"
    using t n w1 by simp
  have k2: "objs ?wb 2 = DEFAULT_CONFIG_literal"
    using t n ig w1 by simp
  have k3: "objs ?wb 3 = [''project'' \<mapsto> JStr ''other-project'', ''version'' \<mapsto> JNum 3]"
  proof (rule ext)
    fix x
    have "objs ?w1 3 = DEFAULT_CONFIG_literal ++ [''project'' \<mapsto> JStr ''my-project'']"
      using w1 by simp
    then show "objs ?wb 3 x = [''project'' \<mapsto> JStr ''other-project'', ''version'' \<mapsto> JNum 3] x"
      by (simp add: setProject_def setVersion_def DEFAULT_CONFIG_literal_def)
  qed
  show ?thesis
    using ig ih k0 k1 k2 k3 by simp
qed

end
